theory Spec2Isabelle
  imports Complex_Main
begin

section \<open>The storefront's cart, session and order lifecycle (server.py)\<close>

text \<open>
  The development embeds the request handlers of \<^verbatim>\<open>server.py\<close> that make up the
  cart/session/order lifecycle: \<^verbatim>\<open>SessionManager.get_session\<close>,
  \<^verbatim>\<open>handle_add_to_cart\<close>, \<^verbatim>\<open>handle_update_cart\<close>, \<^verbatim>\<open>render_checkout\<close>,
  \<^verbatim>\<open>handle_checkout_post\<close> and \<^verbatim>\<open>send_order_email\<close>.

  Conventions of the embedding.
  \<^item> A Python \<^verbatim>\<open>str\<close> is a \<^typ>\<open>string\<close>; text outside Latin-1 is not represented.
  \<^item> A Python \<^verbatim>\<open>int\<close> is an \<^typ>\<open>int\<close>.
  \<^item> Amounts of money are Python floats in the source (SQLite \<^verbatim>\<open>REAL\<close> columns). They are
    embedded as \<^typ>\<open>real\<close>: the theorems below concern which stored value flows where,
    and every concrete amount used is exactly representable in binary floating point.
  \<^item> Handlers mutate the session dictionary, the SQLite database, the CSV file and the
    mail transport; here they take the state and return the updated state.
  \<^item> An exception that no handler catches ends the request without a reply; it is the
    response \<open>Raised\<close>. The exceptions that depend on the values a request supplies are
    modelled: binding an integer outside the signed 64-bit range to an SQLite statement,
    and converting an integer beyond the float range (both \<^verbatim>\<open>OverflowError\<close>). A
    database section left by an exception before \<^verbatim>\<open>conn.commit()\<close> stores nothing.
    Otherwise SQLite, the file system and SMTP are taken to work (row ids do not run
    out, files can be written), and so is the decimal rendering of an integer (CPython
    refuses integers of more than 4300 digits).
\<close>

subsection \<open>Data model\<close>

type_synonym money = real

text \<open>A cart line: the dictionary \<^verbatim>\<open>{'product_id': ..., 'quantity': ...}\<close>.\<close>

record cart_item =
  product_id :: int
  quantity :: int

text \<open>
  A session dictionary. \<^verbatim>\<open>'lang'\<close> is always present (set at creation); the other keys
  may be absent: \<^verbatim>\<open>'cart'\<close> is removed by \<^verbatim>\<open>handle_update_cart\<close> when the cart empties,
  \<^verbatim>\<open>'checkout_total'\<close> and \<^verbatim>\<open>'last_order_total'\<close> exist only once written.
\<close>

record session =
  cart :: "cart_item list option"
  lang :: string
  checkout_total :: "money option"
  last_order_total :: "money option"

text \<open>\<^verbatim>\<open>session.get('cart', [])\<close>: how every handler reads the cart.\<close>

definition get_cart :: "session \<Rightarrow> cart_item list" where
  "get_cart s = (case cart s of None \<Rightarrow> [] | Some c \<Rightarrow> c)"

text \<open>What a handler sends back: \<^verbatim>\<open>send_error(code, message)\<close>, a redirect
  (\<^verbatim>\<open>send_response(code)\<close> with a \<^verbatim>\<open>Location\<close> header), or a rendered template; or
  nothing, when it raised.\<close>

datatype error = OverflowError

datatype response =
  SendError nat string
| Redirect nat string
| Page nat string
| Raised error

text \<open>
  A query parameter that the handler converts with \<^verbatim>\<open>int(...)\<close>: absent from the
  query, present but rejected by \<^verbatim>\<open>int\<close> (\<^verbatim>\<open>ValueError\<close>), or an integer.
\<close>

datatype int_param = Missing | Invalid | Parsed int

subsection \<open>Cart operations\<close>

text \<open>
  The loop of \<^verbatim>\<open>handle_add_to_cart\<close>:
  \<^verbatim>\<open>
  for item in cart:
      if item['product_id'] == product_id:
          item['quantity'] += 1
          break
  else:
      cart.append({'product_id': product_id, 'quantity': 1})
  \<close>
\<close>

fun add_line :: "cart_item list \<Rightarrow> int \<Rightarrow> cart_item list" where
  "add_line [] p = [\<lparr>product_id = p, quantity = 1\<rparr>]"
| "add_line (item # rest) p =
     (if product_id item = p then item\<lparr>quantity := quantity item + 1\<rparr> # rest
      else item # add_line rest p)"

text \<open>\<^verbatim>\<open>cart = session.setdefault('cart', [])\<close> stores the list in the session when the
  key was absent, so the cart is present afterwards.\<close>

definition handle_add_to_cart :: "session \<Rightarrow> int_param \<Rightarrow> response \<times> session" where
  "handle_add_to_cart s product_id_list =
     (case product_id_list of
        Missing \<Rightarrow> (SendError 400 ''Missing product_id'', s)
      | Invalid \<Rightarrow> (SendError 400 ''Invalid product_id'', s)
      | Parsed p \<Rightarrow>
          (Redirect 302 (''/products?lang='' @ lang s @ ''&added=1&open_cart=1''),
           s\<lparr>cart := Some (add_line (get_cart s) p)\<rparr>))"

text \<open>
  The loop of \<^verbatim>\<open>handle_update_cart\<close>, which acts on the first line of the product and
  stops there:
  \<^verbatim>\<open>
  for i, item in enumerate(cart):
      if item['product_id'] == product_id:
          if action == 'increase':
              item['quantity'] += 1
          elif action == 'decrease':
              item['quantity'] -= 1
              if item['quantity'] <= 0:
                  cart.pop(i)
          elif action == 'remove':
              cart.pop(i)
          break
  \<close>
\<close>

fun update_line :: "cart_item list \<Rightarrow> int \<Rightarrow> string \<Rightarrow> cart_item list" where
  "update_line [] p action = []"
| "update_line (item # rest) p action =
     (if product_id item = p then
        (if action = ''increase'' then item\<lparr>quantity := quantity item + 1\<rparr> # rest
         else if action = ''decrease'' then
           (if quantity item - 1 \<le> 0 then rest
            else item\<lparr>quantity := quantity item - 1\<rparr> # rest)
         else if action = ''remove'' then rest
         else item # rest)
      else item # update_line rest p action)"

text \<open>
  \<^verbatim>\<open>handle_update_cart\<close>. Both parameters must be present before \<^verbatim>\<open>int\<close> is tried.
  The list read with \<^verbatim>\<open>session.get('cart', [])\<close> is the session's own list, changed in
  place; when it is empty afterwards the key is removed (\<^verbatim>\<open>session.pop('cart', None)\<close>).
\<close>

definition handle_update_cart ::
  "session \<Rightarrow> int_param \<Rightarrow> string option \<Rightarrow> response \<times> session" where
  "handle_update_cart s product_id_list action_list =
     (case action_list of
        None \<Rightarrow> (SendError 400 ''Missing parameters'', s)
      | Some action \<Rightarrow>
         (case product_id_list of
            Missing \<Rightarrow> (SendError 400 ''Missing parameters'', s)
          | Invalid \<Rightarrow> (SendError 400 ''Invalid product_id'', s)
          | Parsed p \<Rightarrow>
              (let c = update_line (get_cart s) p action
               in if c = []
                  then (Redirect 302 (''/products?lang='' @ lang s), s\<lparr>cart := None\<rparr>)
                  else (Redirect 302 (''/products?lang='' @ lang s @ ''&open_cart=1''),
                        s\<lparr>cart := Some c\<rparr>))))"

subsection \<open>Strings\<close>

text \<open>
  \<^verbatim>\<open>str.strip()\<close> removes leading and trailing whitespace. Among the code points
  below 256 Python counts as whitespace: TAB, LF, VT, FF, CR, the separators
  \<^verbatim>\<open>0x1C\<close>--\<^verbatim>\<open>0x1F\<close>, the space, NEL (\<^verbatim>\<open>0x85\<close>) and the no-break space (\<^verbatim>\<open>0xA0\<close>).
\<close>

definition is_space :: "char \<Rightarrow> bool" where
  "is_space c = (of_char c \<in> {9, 10, 11, 12, 13, 28, 29, 30, 31, 32, 133, 160 :: nat})"

definition strip :: "string \<Rightarrow> string" where
  "strip x = rev (dropWhile is_space (rev (dropWhile is_space x)))"

text \<open>\<^verbatim>\<open>sep.join(parts)\<close>.\<close>

fun join :: "string \<Rightarrow> string list \<Rightarrow> string" where
  "join sep [] = []"
| "join sep [x] = x"
| "join sep (x # y # ys) = x @ sep @ join sep (y # ys)"

text \<open>\<^verbatim>\<open>str(n)\<close> of an integer, as an f-string renders it: decimal digits, a minus sign
  in front of a negative number.\<close>

definition digit :: "nat \<Rightarrow> char" where
  "digit n = ''0123456789'' ! (n mod 10)"

fun digits :: "nat \<Rightarrow> string" where
  "digits n = (if n < 10 then [digit n] else digits (n div 10) @ [digit (n mod 10)])"

definition str_int :: "int \<Rightarrow> string" where
  "str_int i = (if i < 0 then CHR ''-'' # digits (nat (- i)) else digits (nat i))"

definition LF :: string where
  "LF = [CHR 0x0A]"

definition CRLF :: string where
  "CRLF = [CHR 0x0D, CHR 0x0A]"

subsection \<open>The persisted store\<close>

text \<open>
  The three SQLite tables of \<^verbatim>\<open>init_db\<close>, each a list of rows in insertion order. Of
  \<^verbatim>\<open>product\<close> the description and image columns, of \<^verbatim>\<open>orders\<close> the
  \<^verbatim>\<open>created_at\<close> default and of \<^verbatim>\<open>order_items\<close> the \<^verbatim>\<open>id\<close> are left out: no modelled
  handler reads or supplies them. \<^verbatim>\<open>orders_seq\<close> is the largest \<^verbatim>\<open>orders.id\<close> handed
  out so far (\<^verbatim>\<open>AUTOINCREMENT\<close>), so the next \<^verbatim>\<open>lastrowid\<close> is one more.
\<close>

record product_row =
  prod_id :: int
  name_fr :: string
  name_en :: string
  name_ar :: string
  price :: money

record orders_row =
  order_id :: int
  customer_name :: string
  customer_address :: string
  card_number :: string
  order_total :: money
  customer_phone :: string
  payment_method :: string
  customer_email :: string

record order_items_row =
  item_order_id :: int
  item_product_id :: int
  item_quantity :: int
  item_price :: money

record database =
  product :: "product_row list"
  orders :: "orders_row list"
  orders_seq :: int
  order_items :: "order_items_row list"

text \<open>The integers \<^verbatim>\<open>sqlite3\<close> can bind to a statement parameter: signed 64-bit.\<close>

definition in_int64 :: "int \<Rightarrow> bool" where
  "in_int64 i = (- 9223372036854775808 \<le> i \<and> i \<le> 9223372036854775807)"

text \<open>\<^verbatim>\<open>SELECT ... FROM product WHERE id = ?\<close> followed by \<^verbatim>\<open>fetchone()\<close>: binding an
  id outside the 64-bit range raises \<^verbatim>\<open>OverflowError\<close>.\<close>

definition fetch_product :: "database \<Rightarrow> int \<Rightarrow> error + product_row option" where
  "fetch_product d pid =
     (if in_int64 pid then Inr (find (\<lambda>r. prod_id r = pid) (product d))
      else Inl OverflowError)"

text \<open>
  \<^verbatim>\<open>price * quantity\<close>, a float times an integer: the integer is converted to a float
  first, which raises \<^verbatim>\<open>OverflowError\<close> from the magnitude \<^verbatim>\<open>2**1024 - 2**970\<close> on.
\<close>

definition float_limit :: int where
  "float_limit = 2 ^ 1024 - 2 ^ 970"

definition float_times_int :: "money \<Rightarrow> int \<Rightarrow> error + money" where
  "float_times_int x q =
     (if \<bar>q\<bar> < float_limit then Inr (x * of_int q) else Inl OverflowError)"

text \<open>The column \<^verbatim>\<open>f'name_{lang}' if lang in ['fr', 'en', 'ar'] else 'name_fr'\<close>.\<close>

definition name_col :: "string \<Rightarrow> product_row \<Rightarrow> string" where
  "name_col lg r =
     (if lg = ''en'' then name_en r else if lg = ''ar'' then name_ar r else name_fr r)"

subsection \<open>The environment of a request\<close>

text \<open>
  The process-wide configuration and the library functions whose results the handlers
  paste into their output: the \<^verbatim>\<open>translations\<close> table, \<^verbatim>\<open>template.format(field=value)\<close>,
  the rendering \<^verbatim>\<open>f"{x:.2f}"\<close> of an amount, the SMTP settings read from the
  environment at start-up, \<^verbatim>\<open>VENDOR_EMAIL\<close>, and the pages outside the lifecycle (which
  read the session and never write it).
\<close>

record env =
  translations_tab :: "string \<rightharpoonup> (string \<rightharpoonup> string)"
  format_field :: "string \<Rightarrow> string \<Rightarrow> string \<Rightarrow> string"
  fmt2 :: "money \<Rightarrow> string"
  SMTP_SERVER :: "string option"
  SMTP_USERNAME :: "string option"
  SMTP_PASSWORD :: "string option"
  SENDER_EMAIL :: "string option"
  VENDOR_EMAIL :: "string option"
  other_page :: "string \<Rightarrow> session \<Rightarrow> database \<Rightarrow> response"

text \<open>Truth value of an optional string: \<^verbatim>\<open>None\<close> and \<^verbatim>\<open>''\<close> are false.\<close>

definition truthy :: "string option \<Rightarrow> bool" where
  "truthy v = (case v of None \<Rightarrow> False | Some x \<Rightarrow> x \<noteq> [])"

text \<open>\<^verbatim>\<open>not v\<close> of an optional string.\<close>

definition falsy :: "string option \<Rightarrow> bool" where
  "falsy v = (case v of None \<Rightarrow> True | Some x \<Rightarrow> x = [])"

text \<open>
  \<^verbatim>\<open>translations.get(key, {}).get(lang) or translations.get(key, {}).get('fr') or key\<close>
\<close>

definition translate :: "env \<Rightarrow> string \<Rightarrow> string \<Rightarrow> string" where
  "translate e key lg =
     (let entry = (case translations_tab e key of None \<Rightarrow> Map.empty | Some t \<Rightarrow> t)
      in if truthy (entry lg) then (case entry lg of Some v \<Rightarrow> v | None \<Rightarrow> key)
         else if truthy (entry ''fr'') then (case entry ''fr'' of Some v \<Rightarrow> v | None \<Rightarrow> key)
         else key)"

subsection \<open>Server state and requests\<close>

text \<open>A message handed to \<^verbatim>\<open>server.sendmail(from_addr, to_addrs, message)\<close>.\<close>

record mail =
  mail_from :: string
  mail_to :: "string list"
  mail_message :: string

text \<open>
  Everything a request can read or change: \<^verbatim>\<open>session_manager._sessions\<close>, the database,
  the file \<^verbatim>\<open>orders.csv\<close> (\<open>None\<close> while it does not exist, else its rows, each a list
  of fields) and the messages given to the mail transport.
\<close>

record world =
  sessions :: "string \<rightharpoonup> session"
  db :: database
  orders_csv :: "string list list option"
  sent_mail :: "mail list"

text \<open>
  An HTTP request as the handlers see it. \<^verbatim>\<open>cookie\<close> is the value of the
  \<^verbatim>\<open>session_id\<close> cookie when the request carries one. The query parameters the
  lifecycle reads are \<^verbatim>\<open>lang\<close>, \<^verbatim>\<open>product_id\<close> and \<^verbatim>\<open>action\<close>. \<^verbatim>\<open>form\<close> is the
  POST body after \<^verbatim>\<open>urllib.parse.parse_qs\<close>, which maps each field name that occurs to
  the non-empty list of its values; the handler reads only the first value of a list,
  and that first value is what the map holds. \<^verbatim>\<open>fresh_session_id\<close> and \<^verbatim>\<open>timestamp\<close> are
  what \<^verbatim>\<open>str(uuid.uuid4())\<close> and \<^verbatim>\<open>datetime.now().strftime(...)\<close> yield while the request
  is served.
\<close>

datatype http_method = GET | POST

record request =
  http_method :: http_method
  path :: string
  cookie :: "string option"
  query_lang :: "string option"
  query_product_id :: int_param
  query_action :: "string option"
  form :: "string \<rightharpoonup> string"
  fresh_session_id :: string
  timestamp :: string

text \<open>
  \<^verbatim>\<open>SessionManager.get_session\<close>: the session of a known, non-empty id; otherwise a new
  session \<^verbatim>\<open>{'cart': [], 'lang': 'ar'}\<close> stored under a fresh id. The result is the id,
  the session and the updated session table.
\<close>

definition new_session :: session where
  "new_session = \<lparr>cart = Some [], lang = ''ar'', checkout_total = None, last_order_total = None\<rparr>"

definition get_session ::
  "(string \<rightharpoonup> session) \<Rightarrow> request \<Rightarrow> string \<times> session \<times> (string \<rightharpoonup> session)" where
  "get_session table r =
     (case (case cookie r of None \<Rightarrow> None
            | Some session_id \<Rightarrow> if session_id = [] then None
                else map_option (Pair session_id) (table session_id)) of
        Some (session_id, s) \<Rightarrow> (session_id, s, table)
      | None \<Rightarrow> (fresh_session_id r, new_session, table(fresh_session_id r \<mapsto> new_session)))"

subsection \<open>Review: the checkout page\<close>

text \<open>
  The pricing loop of \<^verbatim>\<open>render_checkout\<close>, started with \<^verbatim>\<open>total_amount = 0.0\<close>:
  \<^verbatim>\<open>
  for item in cart:
      cur.execute("SELECT {name_col}, price FROM product WHERE id = ?", (item['product_id'],))
      row = cur.fetchone()
      if row:
          name, price = row
          quantity = item['quantity']
          item_total = price * quantity
          total_amount += item_total
  \<close>
\<close>

fun cart_total :: "database \<Rightarrow> cart_item list \<Rightarrow> money \<Rightarrow> error + money" where
  "cart_total d [] total_amount = Inr total_amount"
| "cart_total d (item # rest) total_amount =
     (case fetch_product d (product_id item) of
        Inl err \<Rightarrow> Inl err
      | Inr None \<Rightarrow> cart_total d rest total_amount
      | Inr (Some row) \<Rightarrow>
          (case float_times_int (price row) (quantity item) of
             Inl err \<Rightarrow> Inl err
           | Inr item_total \<Rightarrow> cart_total d rest (total_amount + item_total)))"

text \<open>
  \<^verbatim>\<open>render_checkout\<close>: an empty cart redirects to the cart page; otherwise the cart is
  priced, the total is saved in the session (\<^verbatim>\<open>session['checkout_total'] = total_amount\<close>)
  and the page is rendered from \<^verbatim>\<open>checkout.html\<close>. An exception of the pricing loop
  comes before the session is written.
\<close>

definition render_checkout :: "database \<Rightarrow> session \<Rightarrow> response \<times> session" where
  "render_checkout d s =
     (if get_cart s = [] then (Redirect 302 (''/cart?lang='' @ lang s), s)
      else case cart_total d (get_cart s) 0 of
             Inl err \<Rightarrow> (Raised err, s)
           | Inr total_amount \<Rightarrow>
               (Page 200 ''checkout.html'', s\<lparr>checkout_total := Some total_amount\<rparr>))"

subsection \<open>The notification email\<close>

text \<open>
  \<^verbatim>\<open>masked = '*' * (len(card_number) - 4) + card_number[-4:] if card_number else ''\<close>.
  A negative repeat count gives the empty string and \<^verbatim>\<open>[-4:]\<close> of a shorter string is
  the whole string; the truncating subtraction of \<^typ>\<open>nat\<close> gives both.
\<close>

definition masked :: "string \<Rightarrow> string" where
  "masked cn =
     (if cn \<noteq> [] then replicate (length cn - 4) (CHR ''*'') @ drop (length cn - 4) cn
      else [])"

definition payment_info :: "string \<Rightarrow> string \<Rightarrow> string" where
  "payment_info pm cn =
     LF @ ''Payment method: '' @ pm @ LF @
     (if pm = ''card'' then ''Card: '' @ masked cn @ LF else ''Payable on delivery'' @ LF)"

text \<open>The lines of the items block, one per cart line whose product resolves.\<close>

fun email_lines ::
  "env \<Rightarrow> database \<Rightarrow> string \<Rightarrow> cart_item list \<Rightarrow> error + string list" where
  "email_lines e d lg [] = Inr []"
| "email_lines e d lg (item # rest) =
     (case fetch_product d (product_id item) of
        Inl err \<Rightarrow> Inl err
      | Inr None \<Rightarrow> email_lines e d lg rest
      | Inr (Some row) \<Rightarrow>
          (case float_times_int (price row) (quantity item) of
             Inl err \<Rightarrow> Inl err
           | Inr item_total \<Rightarrow>
               (case email_lines e d lg rest of
                  Inl err \<Rightarrow> Inl err
                | Inr lines \<Rightarrow>
                    Inr ((''- '' @ name_col lg row @ '' x '' @ str_int (quantity item) @ '': '' @
                          fmt2 e item_total @ '' TND'') # lines))))"

definition opt_str :: "string option \<Rightarrow> string" where
  "opt_str v = (case v of None \<Rightarrow> [] | Some x \<Rightarrow> x)"

text \<open>
  \<^verbatim>\<open>send_order_email\<close>: \<open>None\<close> when the customer address or an SMTP setting is
  missing (the silent return), else the message given to \<^verbatim>\<open>sendmail\<close>; an exception
  of the loop over the items leaves the function.
\<close>

definition send_order_email ::
  "env \<Rightarrow> database \<Rightarrow> string \<Rightarrow> string \<Rightarrow> string option \<Rightarrow> cart_item list \<Rightarrow> money \<Rightarrow>
   string \<Rightarrow> string \<Rightarrow> string \<Rightarrow> string \<Rightarrow> string \<Rightarrow> error + mail option" where
  "send_order_email e d customer_email_arg customer_name_arg vendor_email order_items_arg total_arg
     payment_method_arg card_number_arg phone address lg =
     (if customer_email_arg = [] \<or> falsy (SMTP_SERVER e) \<or> falsy (SMTP_USERNAME e)
         \<or> falsy (SMTP_PASSWORD e) \<or> falsy (SENDER_EMAIL e)
      then Inr None
      else case email_lines e d lg order_items_arg of
        Inl err \<Rightarrow> Inl err
      | Inr lines \<Rightarrow>
        (let items_block = join LF lines;
             subject = translate e ''email_subject'' lg;
             body_intro = format_field e (translate e ''email_body_intro'' lg) ''name''
                            customer_name_arg;
             body_total = format_field e (translate e ''email_body_total'' lg) ''total''
                            (fmt2 e total_arg);
             body_thanks = translate e ''email_body_thanks'' lg;
             contact_info = ''Phone: '' @ phone @ LF @ ''Address: '' @ address @ LF;
             body = body_intro @ LF @ LF @ ''Items:'' @ LF @ items_block @ LF @ LF @
                    body_total @ LF @ payment_info payment_method_arg card_number_arg @ contact_info @ body_thanks;
             from_addr = opt_str (SENDER_EMAIL e);
             to_addrs = customer_email_arg # (if truthy vendor_email then [opt_str vendor_email] else [])
         in Inr (Some \<lparr>mail_from = from_addr, mail_to = to_addrs,
                  mail_message = ''From: '' @ from_addr @ CRLF @ ''To: '' @ join '', '' to_addrs @ CRLF @
                                 ''Subject: '' @ subject @ CRLF @ CRLF @ body\<rparr>)))"

subsection \<open>Submit: the checkout form\<close>

text \<open>\<^verbatim>\<open>params.get(key, [''])[0].strip()\<close>\<close>

definition field :: "(string \<rightharpoonup> string) \<Rightarrow> string \<Rightarrow> string" where
  "field params key = strip (case params key of None \<Rightarrow> [] | Some v \<Rightarrow> v)"

text \<open>The \<^verbatim>\<open>INSERT INTO orders\<close> and \<^verbatim>\<open>order_id = cur.lastrowid\<close>.\<close>

definition insert_order ::
  "database \<Rightarrow> string \<Rightarrow> string \<Rightarrow> string \<Rightarrow> money \<Rightarrow> string \<Rightarrow> string \<Rightarrow> string \<Rightarrow>
   int \<times> database" where
  "insert_order d name address card_ref total_amount phone pm email =
     (let oid = orders_seq d + 1
      in (oid,
          d\<lparr>orders := orders d @
                [\<lparr>order_id = oid, customer_name = name, customer_address = address,
                  card_number = card_ref, order_total = total_amount, customer_phone = phone,
                  payment_method = pm, customer_email = email\<rparr>],
            orders_seq := oid\<rparr>))"

text \<open>
  The item loop of \<^verbatim>\<open>handle_checkout_post\<close>:
  \<^verbatim>\<open>
  for item in cart:
      cur.execute("SELECT price FROM product WHERE id = ?", (item['product_id'],))
      price_row = cur.fetchone()
      if not price_row:
          continue
      price = price_row[0]
      cur.execute("INSERT INTO order_items (order_id, product_id, quantity, price) ...",
                  (order_id, item['product_id'], item['quantity'], price))
  \<close>
\<close>

text \<open>
  The \<^verbatim>\<open>SELECT\<close> raises on a product id outside the 64-bit range, the \<^verbatim>\<open>INSERT\<close> on
  such a quantity; the loop is not inside a \<^verbatim>\<open>try\<close>.
\<close>

fun save_items :: "database \<Rightarrow> int \<Rightarrow> cart_item list \<Rightarrow> error + database" where
  "save_items d oid [] = Inr d"
| "save_items d oid (item # rest) =
     (case fetch_product d (product_id item) of
        Inl err \<Rightarrow> Inl err
      | Inr None \<Rightarrow> save_items d oid rest
      | Inr (Some row) \<Rightarrow>
          (if in_int64 (quantity item)
           then save_items
                  (d\<lparr>order_items := order_items d @
                       [\<lparr>item_order_id = oid, item_product_id = product_id item,
                         item_quantity = quantity item, item_price = price row\<rparr>]\<rparr>)
                  oid rest
           else Inl OverflowError))"

text \<open>The flattened items description of the audit row, before \<^verbatim>\<open>'; '.join\<close>:
  \<^verbatim>\<open>prod_name = row[0] if row else f'ID{item["product_id"]}'\<close> and
  \<^verbatim>\<open>f"{prod_name} x {item['quantity']}"\<close>.\<close>

fun item_descriptions :: "database \<Rightarrow> cart_item list \<Rightarrow> error + string list" where
  "item_descriptions d [] = Inr []"
| "item_descriptions d (item # rest) =
     (case fetch_product d (product_id item) of
        Inl err \<Rightarrow> Inl err
      | Inr row \<Rightarrow>
          (case item_descriptions d rest of
             Inl err \<Rightarrow> Inl err
           | Inr descriptions \<Rightarrow>
               Inr (((case row of None \<Rightarrow> ''ID'' @ str_int (product_id item)
                      | Some found \<Rightarrow> name_fr found) @ '' x '' @ str_int (quantity item))
                    # descriptions)))"

definition csv_header :: "string list" where
  "csv_header = [''timestamp'', ''name'', ''email'', ''phone'', ''address'', ''payment_method'',
                 ''card_number'', ''items'', ''total'']"

text \<open>Appending to \<^verbatim>\<open>orders.csv\<close>: the header row first when the file is new.\<close>

definition append_csv :: "string list list option \<Rightarrow> string list \<Rightarrow> string list list option" where
  "append_csv file row =
     (case file of None \<Rightarrow> Some [csv_header, row] | Some rows \<Rightarrow> Some (rows @ [row]))"

text \<open>
  \<^verbatim>\<open>handle_checkout_post\<close>. The two \<^verbatim>\<open>send_error(400, ...)\<close> returns are the failures
  the specification calls \<open>ValidationError\<close> and \<open>EmptyCartError\<close>. The total comes from
  \<^verbatim>\<open>session.get('checkout_total', 0.0)\<close>; the stored card reference is
  \<^verbatim>\<open>card_number if payment_method == 'card' else ''\<close> in the order row, in the audit row
  and in the call of \<^verbatim>\<open>send_order_email\<close> alike. An exception of the item loop leaves
  the handler before \<^verbatim>\<open>conn.commit()\<close>: the order row is not stored, nothing else is
  written and no reply is sent. The CSV section and the call of \<^verbatim>\<open>send_order_email\<close>
  are each inside a \<^verbatim>\<open>try\<close> that swallows every exception.
\<close>

definition handle_checkout_post :: "env \<Rightarrow> world \<Rightarrow> request \<Rightarrow> response \<times> world" where
  "handle_checkout_post e w r =
     (case get_session (sessions w) r of (sid, s, table) \<Rightarrow>
       (let lg = lang s;
            name = field (form r) ''name'';
            email = field (form r) ''email'';
            phone = field (form r) ''phone'';
            address = field (form r) ''address'';
            pm = field (form r) ''payment_method'';
            cn = field (form r) ''card_number''
        in if name = [] \<or> phone = [] \<or> address = [] \<or> pm = []
           then (SendError 400 ''Missing required fields'', w\<lparr>sessions := table\<rparr>)
           else
            (let cart_now = get_cart s;
                 total_amount = (case checkout_total s of None \<Rightarrow> 0 | Some t \<Rightarrow> t)
             in if cart_now = []
                then (SendError 400 ''Cart is empty'', w\<lparr>sessions := table\<rparr>)
                else
                 (let stored_card = (if pm = ''card'' then cn else []);
                      (oid, d1) = insert_order (db w) name address stored_card total_amount
                                    phone pm email
                  in case save_items d1 oid cart_now of
                       Inl err \<Rightarrow> (Raised err, w\<lparr>sessions := table\<rparr>)
                     | Inr d2 \<Rightarrow>
                        (let csv = (case item_descriptions d2 cart_now of
                                      Inl err \<Rightarrow> orders_csv w
                                    | Inr descriptions \<Rightarrow>
                                        append_csv (orders_csv w)
                                          [timestamp r, name, email, phone, address, pm,
                                           stored_card, join ''; '' descriptions,
                                           fmt2 e total_amount]);
                             mails = (case send_order_email e d2 email name (VENDOR_EMAIL e)
                                             cart_now total_amount pm stored_card phone
                                             address lg of
                                        Inl err \<Rightarrow> sent_mail w
                                      | Inr None \<Rightarrow> sent_mail w
                                      | Inr (Some m) \<Rightarrow> sent_mail w @ [m])
                         in (Redirect 303 (''/confirmation?lang='' @ lg),
                             \<lparr>sessions = table(sid \<mapsto> s\<lparr>cart := Some [],
                                                         checkout_total := Some 0,
                                                         last_order_total := Some total_amount\<rparr>),
                              db = d2, orders_csv = csv, sent_mail = mails\<rparr>))))))"

subsection \<open>Dispatch\<close>

text \<open>
  \<^verbatim>\<open>do_GET\<close> fetches the session, stores the language
  (\<^verbatim>\<open>params.get('lang', [session.get('lang', 'ar')])[0]\<close>) and routes. The routes that
  write the session are \<^verbatim>\<open>/add_to_cart\<close>, \<^verbatim>\<open>/update_cart\<close> and \<^verbatim>\<open>/checkout\<close>; every
  other path only renders.
\<close>

definition do_GET :: "env \<Rightarrow> world \<Rightarrow> request \<Rightarrow> response \<times> world" where
  "do_GET e w r =
     (case get_session (sessions w) r of (sid, s0, table) \<Rightarrow>
       (let s = s0\<lparr>lang := (case query_lang r of None \<Rightarrow> lang s0 | Some l \<Rightarrow> l)\<rparr>;
            (reply, s') =
              (if path r = ''/add_to_cart'' then handle_add_to_cart s (query_product_id r)
               else if path r = ''/update_cart''
                 then handle_update_cart s (query_product_id r) (query_action r)
               else if path r = ''/checkout'' then render_checkout (db w) s
               else (other_page e (path r) s (db w), s))
        in (reply, w\<lparr>sessions := table(sid \<mapsto> s')\<rparr>)))"

definition do_POST :: "env \<Rightarrow> world \<Rightarrow> request \<Rightarrow> response \<times> world" where
  "do_POST e w r =
     (if path r = ''/checkout'' then handle_checkout_post e w r
      else (SendError 404 ''Not Found'', w))"

definition serve :: "env \<Rightarrow> world \<Rightarrow> request \<Rightarrow> response \<times> world" where
  "serve e w r = (case http_method r of GET \<Rightarrow> do_GET e w r | POST \<Rightarrow> do_POST e w r)"

text \<open>The server handles one request to completion before the next.\<close>

fun serve_all :: "env \<Rightarrow> world \<Rightarrow> request list \<Rightarrow> world" where
  "serve_all e w [] = w"
| "serve_all e w (r # rs) = serve_all e (snd (serve e w r)) rs"

subsection \<open>Notions used in the statements\<close>

text \<open>The lines a cart holds for one product.\<close>

definition lines_for :: "int \<Rightarrow> cart_item list \<Rightarrow> cart_item list" where
  "lines_for p c = filter (\<lambda>l. product_id l = p) c"

text \<open>\<open>n\<close> successive \<^verbatim>\<open>/add_to_cart\<close> requests for the same product.\<close>

definition add_n :: "nat \<Rightarrow> int \<Rightarrow> session \<Rightarrow> session" where
  "add_n n p s = ((\<lambda>s. snd (handle_add_to_cart s (Parsed p))) ^^ n) s"

text \<open>The session a request is served in, and its id, as \<^verbatim>\<open>get_session\<close> yields them.\<close>

definition request_sid :: "world \<Rightarrow> request \<Rightarrow> string" where
  "request_sid w r = fst (get_session (sessions w) r)"

definition request_session :: "world \<Rightarrow> request \<Rightarrow> session" where
  "request_session w r = fst (snd (get_session (sessions w) r))"

text \<open>The required form fields are all non-blank after trimming.\<close>

definition fields_valid :: "(string \<rightharpoonup> string) \<Rightarrow> bool" where
  "fields_valid f =
     (field f ''name'' \<noteq> [] \<and> field f ''phone'' \<noteq> [] \<and> field f ''address'' \<noteq> []
      \<and> field f ''payment_method'' \<noteq> [])"

text \<open>The catalog price of a product id the catalog resolves.\<close>

definition catalog_price :: "database \<Rightarrow> int \<Rightarrow> money option" where
  "catalog_price d pid =
     (case fetch_product d pid of Inl err \<Rightarrow> None | Inr row \<Rightarrow> map_option price row)"

text \<open>A cart line whose product the catalog resolves, and the order-item row written for
  it under order \<open>oid\<close>.\<close>

definition resolves :: "database \<Rightarrow> cart_item \<Rightarrow> bool" where
  "resolves d item = (catalog_price d (product_id item) \<noteq> None)"

definition item_row :: "database \<Rightarrow> int \<Rightarrow> cart_item \<Rightarrow> order_items_row" where
  "item_row d oid item =
     \<lparr>item_order_id = oid, item_product_id = product_id item, item_quantity = quantity item,
      item_price = (case catalog_price d (product_id item) of None \<Rightarrow> 0 | Some x \<Rightarrow> x)\<rparr>"

text \<open>
  Every line of the cart can pass the item loop: its product id can be bound, and so
  can its quantity when the catalog resolves the product.
\<close>

definition storable :: "database \<Rightarrow> cart_item list \<Rightarrow> bool" where
  "storable d c =
     list_all (\<lambda>item. in_int64 (product_id item)
                      \<and> (if resolves d item then in_int64 (quantity item) else True)) c"

text \<open>The reply of a submission that succeeds.\<close>

definition confirmation :: "world \<Rightarrow> request \<Rightarrow> response" where
  "confirmation w r = Redirect 303 (''/confirmation?lang='' @ lang (request_session w r))"

text \<open>The order header a successful submission inserts, read off the request and the
  session it is served in.\<close>

definition placed_order :: "world \<Rightarrow> request \<Rightarrow> orders_row" where
  "placed_order w r =
     \<lparr>order_id = orders_seq (db w) + 1,
      customer_name = field (form r) ''name'',
      customer_address = field (form r) ''address'',
      card_number = (if field (form r) ''payment_method'' = ''card''
                     then field (form r) ''card_number'' else []),
      order_total = (case checkout_total (request_session w r) of None \<Rightarrow> 0 | Some t \<Rightarrow> t),
      customer_phone = field (form r) ''phone'',
      payment_method = field (form r) ''payment_method'',
      customer_email = field (form r) ''email''\<rparr>"

text \<open>A request is a Review that stores a total in session \<open>sid\<close>: a \<^verbatim>\<open>GET /checkout\<close>
  served in that session while its cart is not empty and can be priced.\<close>

definition stores_total :: "world \<Rightarrow> request \<Rightarrow> string \<Rightarrow> bool" where
  "stores_total w r sid =
     (http_method r = GET \<and> path r = ''/checkout'' \<and> request_sid w r = sid
      \<and> get_cart (request_session w r) \<noteq> []
      \<and> (case cart_total (db w) (get_cart (request_session w r)) 0 of
             Inl err \<Rightarrow> False | Inr total_amount \<Rightarrow> True))"

text \<open>No request of the sequence, served in turn from \<open>w\<close>, is a Review that stores a
  total in session \<open>sid\<close>.\<close>

fun review_free :: "env \<Rightarrow> world \<Rightarrow> string \<Rightarrow> request list \<Rightarrow> bool" where
  "review_free e w sid [] = True"
| "review_free e w sid (r # rs) =
     (\<not> stores_total w r sid \<and> review_free e (snd (serve e w r)) sid rs)"

text \<open>A session entry whose \<^verbatim>\<open>'checkout_total'\<close> is absent or \<^verbatim>\<open>0.0\<close>.\<close>

definition total_unset :: "session option \<Rightarrow> bool" where
  "total_unset so =
     (case so of None \<Rightarrow> True
      | Some s \<Rightarrow> checkout_total s = None \<or> checkout_total s = Some 0)"

text \<open>Every session's cart has at most one line per product.\<close>

definition carts_distinct :: "(string \<rightharpoonup> session) \<Rightarrow> bool" where
  "carts_distinct table =
     (\<forall>sid s. table sid = Some s \<longrightarrow> distinct (map product_id (get_cart s)))"

subsection \<open>Sample data\<close>

text \<open>
  A catalog with one product at 15.00, an environment without translations and without
  a mail transport, and a rendering of amounts that is \<^verbatim>\<open>f"{x:.2f}"\<close> on whole numbers
  of cents.
\<close>

definition two_digits :: "nat \<Rightarrow> string" where
  "two_digits n = [digit (n div 10), digit (n mod 10)]"

definition cents2 :: "money \<Rightarrow> string" where
  "cents2 x =
     (let c = nat (round (\<bar>x\<bar> * 100))
      in (if x < 0 then ''-'' else []) @ digits (c div 100) @ ''.'' @ two_digits (c mod 100))"

definition sample_env :: env where
  "sample_env =
     \<lparr>translations_tab = Map.empty, format_field = (\<lambda>template name v. template),
      fmt2 = cents2, SMTP_SERVER = None, SMTP_USERNAME = None, SMTP_PASSWORD = None,
      SENDER_EMAIL = None, VENDOR_EMAIL = None,
      other_page = (\<lambda>p s d. SendError 404 ''Not Found'')\<rparr>"

definition sample_db :: database where
  "sample_db =
     \<lparr>product = [\<lparr>prod_id = 1, name_fr = ''Pizza Margherita'', name_en = ''Margherita Pizza'',
                  name_ar = ''Pizza'', price = 15\<rparr>],
      orders = [], orders_seq = 0, order_items = []\<rparr>"

definition sample_world :: world where
  "sample_world = \<lparr>sessions = Map.empty, db = sample_db, orders_csv = None, sent_mail = []\<rparr>"

definition get_request :: "string \<Rightarrow> string option \<Rightarrow> int_param \<Rightarrow> string option \<Rightarrow> request" where
  "get_request p c pid act =
     \<lparr>http_method = GET, path = p, cookie = c, query_lang = None, query_product_id = pid,
      query_action = act, form = Map.empty, fresh_session_id = ''s1'',
      timestamp = ''2025-01-01 12:00:00''\<rparr>"

definition post_request :: "string option \<Rightarrow> (string \<rightharpoonup> string) \<Rightarrow> request" where
  "post_request c f =
     \<lparr>http_method = POST, path = ''/checkout'', cookie = c, query_lang = None,
      query_product_id = Missing, query_action = None, form = f, fresh_session_id = ''s2'',
      timestamp = ''2025-01-01 12:05:00''\<rparr>"

definition cash_form :: "string \<rightharpoonup> string" where
  "cash_form = [''name'' \<mapsto> ''A'', ''phone'' \<mapsto> ''123'', ''address'' \<mapsto> ''X'',
                ''payment_method'' \<mapsto> ''cash'']"

definition card_form :: "string \<rightharpoonup> string" where
  "card_form = [''name'' \<mapsto> ''A'', ''phone'' \<mapsto> ''123'', ''address'' \<mapsto> ''X'',
                ''payment_method'' \<mapsto> ''card'', ''card_number'' \<mapsto> ''4111111111111111'']"

text \<open>
  Worlds reached from the start of the server by a visitor whose session is \<^verbatim>\<open>s1\<close>:
  after adding product 1; after then opening the checkout page; after then adding
  product 1 once more; and after adding only a product the catalog does not have.
\<close>

definition added_world :: world where
  "added_world =
     serve_all sample_env sample_world [get_request ''/add_to_cart'' None (Parsed 1) None]"

definition reviewed_world :: world where
  "reviewed_world =
     serve_all sample_env sample_world
       [get_request ''/add_to_cart'' None (Parsed 1) None,
        get_request ''/checkout'' (Some ''s1'') Missing None]"

definition stale_world :: world where
  "stale_world =
     serve_all sample_env sample_world
       [get_request ''/add_to_cart'' None (Parsed 1) None,
        get_request ''/checkout'' (Some ''s1'') Missing None,
        get_request ''/add_to_cart'' (Some ''s1'') (Parsed 1) None]"

definition unknown_product_world :: world where
  "unknown_product_world =
     serve_all sample_env sample_world [get_request ''/add_to_cart'' None (Parsed 999) None]"

text \<open>The world after \<^verbatim>\<open>GET /add_to_cart?product_id=9223372036854775808\<close>.\<close>

definition unbindable_world :: world where
  "unbindable_world =
     serve_all sample_env sample_world
       [get_request ''/add_to_cart'' None (Parsed 9223372036854775808) None]"

section \<open>Properties\<close>

subsection \<open>Cart operations\<close>

lemma lines_for_add_other: "q \<noteq> p \<Longrightarrow> lines_for q (add_line c p) = lines_for q c"
  by (induction c) (auto simp: lines_for_def)

lemma lines_for_add_absent:
  "lines_for p c = [] \<Longrightarrow> lines_for p (add_line c p) = [\<lparr>product_id = p, quantity = 1\<rparr>]"
  by (induction c) (auto simp: lines_for_def split: if_splits)

lemma lines_for_add_present:
  "lines_for p c = l # ls \<Longrightarrow> lines_for p (add_line c p) = l\<lparr>quantity := quantity l + 1\<rparr> # ls"
  by (induction c) (auto simp: lines_for_def split: if_splits)

lemma get_cart_add: "get_cart (snd (handle_add_to_cart s (Parsed p))) = add_line (get_cart s) p"
  by (simp add: handle_add_to_cart_def get_cart_def)

lemma add_n_Suc: "add_n (Suc n) p s = snd (handle_add_to_cart (add_n n p s) (Parsed p))"
  by (simp add: add_n_def)

lemma lines_for_add_n_present:
  "lines_for p (get_cart s) = l # ls \<Longrightarrow>
   lines_for p (get_cart (add_n n p s)) = l\<lparr>quantity := quantity l + int n\<rparr> # ls"
proof (induction n)
  case 0
  then show ?case by (simp add: add_n_def)
next
  case (Suc n)
  then show ?case by (simp add: add_n_Suc get_cart_add lines_for_add_present)
qed

lemma lines_for_add_n_absent:
  "lines_for p (get_cart s) = [] \<Longrightarrow> 0 < n \<Longrightarrow>
   lines_for p (get_cart (add_n n p s)) = [\<lparr>product_id = p, quantity = int n\<rparr>]"
proof (induction n)
  case 0
  then show ?case by simp
next
  case (Suc n)
  show ?case
  proof (cases "n = 0")
    case True
    with Suc.prems show ?thesis by (simp add: add_n_def get_cart_add lines_for_add_absent)
  next
    case False
    with Suc show ?thesis by (simp add: add_n_Suc get_cart_add lines_for_add_present)
  qed
qed

lemma lines_for_add_n_other:
  "q \<noteq> p \<Longrightarrow> lines_for q (get_cart (add_n n p s)) = lines_for q (get_cart s)"
  by (induction n) (simp_all add: add_n_def get_cart_add lines_for_add_other)

lemma distinct_add_line:
  "distinct (map product_id c) \<Longrightarrow> distinct (map product_id (add_line c p))"
proof (induction c)
  case Nil then show ?case by simp
next
  case (Cons a c)
  have "product_id ` set (add_line c p) = insert p (product_id ` set c)" for c
    by (induction c) auto
  with Cons show ?case by auto
qed

lemma distinct_add_n:
  "distinct (map product_id (get_cart s)) \<Longrightarrow> distinct (map product_id (get_cart (add_n n p s)))"
  by (induction n) (simp_all add: add_n_def get_cart_add distinct_add_line)

lemma update_line_absent: "p \<notin> product_id ` set c \<Longrightarrow> update_line c p a = c"
  by (induction c) auto

lemma update_line_first:
  "p \<notin> product_id ` set xs \<Longrightarrow> product_id l = p \<Longrightarrow>
   update_line (xs @ l # ys) p a = xs @ update_line (l # ys) p a"
  by (induction xs) auto

lemma get_cart_update:
  "get_cart (snd (handle_update_cart s (Parsed p) (Some a))) = update_line (get_cart s) p a"
  by (simp add: handle_update_cart_def get_cart_def Let_def)

lemma update_reply:
  "fst (handle_update_cart s (Parsed p) (Some a)) =
     Redirect 302 (''/products?lang='' @ lang s @
                   (if update_line (get_cart s) p a = [] then [] else ''&open_cart=1''))"
  by (simp add: handle_update_cart_def Let_def)

text \<open>
  Claim C8. On the first line \<open>l\<close> of product \<open>p\<close> (the lines \<open>xs\<close> before it are of other
  products), \<^verbatim>\<open>increase\<close> adds 1 to the quantity, \<^verbatim>\<open>decrease\<close> subtracts 1 and removes
  the line when the result is at most 0 (so at quantity 1 the line goes), \<^verbatim>\<open>remove\<close>
  deletes the line. For a product the cart does not hold, any action leaves the cart as
  it was and the reply is the redirect, not an error.
\<close>

theorem update_cart_actions:
  "(get_cart s = xs @ l # ys \<and> product_id l = p \<and> p \<notin> product_id ` set xs \<longrightarrow>
      get_cart (snd (handle_update_cart s (Parsed p) (Some ''increase'')))
        = xs @ l\<lparr>quantity := quantity l + 1\<rparr> # ys
    \<and> get_cart (snd (handle_update_cart s (Parsed p) (Some ''decrease'')))
        = (if quantity l - 1 \<le> 0 then xs @ ys else xs @ l\<lparr>quantity := quantity l - 1\<rparr> # ys)
    \<and> (quantity l = 1 \<longrightarrow>
         get_cart (snd (handle_update_cart s (Parsed p) (Some ''decrease''))) = xs @ ys)
    \<and> get_cart (snd (handle_update_cart s (Parsed p) (Some ''remove''))) = xs @ ys)
   \<and> (p \<notin> product_id ` set (get_cart s) \<longrightarrow>
        get_cart (snd (handle_update_cart s (Parsed p) (Some a))) = get_cart s
      \<and> (\<exists>loc. fst (handle_update_cart s (Parsed p) (Some a)) = Redirect 302 loc))"
  by (simp add: get_cart_update update_line_first update_line_absent update_reply)

theorem update_cart_actions_witness:
  "get_cart \<lparr>cart = Some [\<lparr>product_id = 1, quantity = 2\<rparr>, \<lparr>product_id = 2, quantity = 1\<rparr>],
             lang = ''ar'', checkout_total = None, last_order_total = None\<rparr>
     = [\<lparr>product_id = 1, quantity = 2\<rparr>] @ \<lparr>product_id = 2, quantity = 1\<rparr> # []
   \<and> get_cart (snd (handle_update_cart
          \<lparr>cart = Some [\<lparr>product_id = 1, quantity = 2\<rparr>, \<lparr>product_id = 2, quantity = 1\<rparr>],
            lang = ''ar'', checkout_total = None, last_order_total = None\<rparr>
          (Parsed 2) (Some ''increase'')))
       = [\<lparr>product_id = 1, quantity = 2\<rparr>, \<lparr>product_id = 2, quantity = 2\<rparr>]
   \<and> get_cart (snd (handle_update_cart
          \<lparr>cart = Some [\<lparr>product_id = 1, quantity = 2\<rparr>, \<lparr>product_id = 2, quantity = 1\<rparr>],
            lang = ''ar'', checkout_total = None, last_order_total = None\<rparr>
          (Parsed 2) (Some ''decrease'')))
       = [\<lparr>product_id = 1, quantity = 2\<rparr>]
   \<and> get_cart (snd (handle_update_cart
          \<lparr>cart = Some [\<lparr>product_id = 1, quantity = 2\<rparr>, \<lparr>product_id = 2, quantity = 1\<rparr>],
            lang = ''ar'', checkout_total = None, last_order_total = None\<rparr>
          (Parsed 5) (Some ''remove'')))
       = [\<lparr>product_id = 1, quantity = 2\<rparr>, \<lparr>product_id = 2, quantity = 1\<rparr>]"
  using update_cart_actions
          [where s = "\<lparr>cart = Some [\<lparr>product_id = 1, quantity = 2\<rparr>, \<lparr>product_id = 2, quantity = 1\<rparr>],
                        lang = ''ar'', checkout_total = None, last_order_total = None\<rparr>"
             and xs = "[\<lparr>product_id = 1, quantity = 2\<rparr>]" and l = "\<lparr>product_id = 2, quantity = 1\<rparr>"
             and ys = "[]" and p = 2 and a = "''remove''"]
        update_cart_actions
          [where s = "\<lparr>cart = Some [\<lparr>product_id = 1, quantity = 2\<rparr>, \<lparr>product_id = 2, quantity = 1\<rparr>],
                        lang = ''ar'', checkout_total = None, last_order_total = None\<rparr>"
             and xs = "[]" and l = "\<lparr>product_id = 1, quantity = 2\<rparr>"
             and ys = "[\<lparr>product_id = 2, quantity = 1\<rparr>]" and p = 5 and a = "''remove''"]
  by (simp add: get_cart_def)

subsection \<open>The database section of a submission\<close>

lemma float_limit_int64: "9223372036854775808 < float_limit"
proof -
  have "(2::int) ^ 64 * 2 ^ 906 \<le> 2 ^ 970" by (simp flip: power_add)
  moreover have "(2::int) ^ 1024 = 2 ^ 970 * 2 ^ 54" by (simp flip: power_add)
  ultimately show ?thesis
    unfolding float_limit_def by simp
qed

lemma float_times_int_bindable:
  "in_int64 q \<Longrightarrow> float_times_int x q = Inr (x * of_int q)"
  using float_limit_int64 by (auto simp: float_times_int_def in_int64_def)

lemma fetch_product_order_items [simp]:
  "fetch_product (d\<lparr>order_items := x\<rparr>) = fetch_product d"
  by (rule ext) (simp add: fetch_product_def)

lemma fetch_product_orders [simp]:
  "fetch_product (d\<lparr>orders := x, orders_seq := y\<rparr>) = fetch_product d"
  by (rule ext) (simp add: fetch_product_def)

lemma catalog_price_order_items [simp]:
  "catalog_price (d\<lparr>order_items := x\<rparr>) = catalog_price d"
  by (rule ext) (simp add: catalog_price_def)

lemma catalog_price_orders [simp]:
  "catalog_price (d\<lparr>orders := x, orders_seq := y\<rparr>) = catalog_price d"
  by (rule ext) (simp add: catalog_price_def)

lemma resolves_order_items [simp]: "resolves (d\<lparr>order_items := x\<rparr>) = resolves d"
  by (rule ext) (simp add: resolves_def)

lemma resolves_orders [simp]: "resolves (d\<lparr>orders := x, orders_seq := y\<rparr>) = resolves d"
  by (rule ext) (simp add: resolves_def)

lemma item_row_order_items [simp]: "item_row (d\<lparr>order_items := x\<rparr>) = item_row d"
  by (rule ext)+ (simp add: item_row_def)

lemma item_row_orders [simp]: "item_row (d\<lparr>orders := x, orders_seq := y\<rparr>) = item_row d"
  by (rule ext)+ (simp add: item_row_def)

lemma storable_order_items [simp]: "storable (d\<lparr>order_items := x\<rparr>) = storable d"
  by (rule ext) (simp add: storable_def)

lemma storable_orders [simp]: "storable (d\<lparr>orders := x, orders_seq := y\<rparr>) = storable d"
  by (rule ext) (simp add: storable_def)

lemma storable_Cons:
  "storable d (item # rest) =
     (in_int64 (product_id item) \<and> (resolves d item \<longrightarrow> in_int64 (quantity item))
      \<and> storable d rest)"
  by (auto simp: storable_def)

lemma resolves_fetch:
  "resolves d item = (\<exists>row. fetch_product d (product_id item) = Inr (Some row))"
  by (auto simp: resolves_def catalog_price_def split: sum.splits option.splits)

lemma save_items_unstorable:
  "\<not> storable d c \<Longrightarrow> save_items d oid c = Inl OverflowError"
proof (induction d oid c rule: save_items.induct)
  case (1 d oid)
  then show ?case by (simp add: storable_def)
next
  case (2 d oid item rest)
  show ?case
  proof (cases "fetch_product d (product_id item)")
    case (Inl err)
    then show ?thesis by (cases err) simp
  next
    case (Inr row)
    then have b: "in_int64 (product_id item)"
      by (simp add: fetch_product_def split: if_splits)
    show ?thesis
    proof (cases row)
      case None
      with Inr have "\<not> resolves d item" by (simp add: resolves_fetch)
      with "2.prems" b have "\<not> storable d rest" by (simp add: storable_Cons)
      with Inr None "2.IH"(1) show ?thesis by simp
    next
      case (Some found)
      with Inr have r: "resolves d item" by (simp add: resolves_fetch)
      show ?thesis
      proof (cases "in_int64 (quantity item)")
        case False
        with Inr Some show ?thesis by simp
      next
        case True
        with "2.prems" b r have "\<not> storable d rest" by (simp add: storable_Cons)
        with Inr Some True "2.IH"(2) show ?thesis by simp
      qed
    qed
  qed
qed

lemma save_items_storable:
  "storable d c \<Longrightarrow>
   \<exists>d'. save_items d oid c = Inr d'
      \<and> product d' = product d \<and> orders d' = orders d \<and> orders_seq d' = orders_seq d
      \<and> order_items d' = order_items d @ map (item_row d oid) (filter (resolves d) c)"
proof (induction d oid c rule: save_items.induct)
  case (1 d oid)
  then show ?case by simp
next
  case (2 d oid item rest)
  from "2.prems" have b: "in_int64 (product_id item)" and rest: "storable d rest"
    and q: "resolves d item \<longrightarrow> in_int64 (quantity item)"
    by (simp_all add: storable_Cons)
  from b obtain row where f: "fetch_product d (product_id item) = Inr row"
    by (simp add: fetch_product_def)
  show ?case
  proof (cases row)
    case None
    with f have "\<not> resolves d item" by (simp add: resolves_fetch)
    with f None "2.IH"(1) rest show ?thesis by simp
  next
    case (Some found)
    with f have r: "resolves d item" by (simp add: resolves_fetch)
    with q have qi: "in_int64 (quantity item)" by simp
    have row: "item_row d oid item =
                 \<lparr>item_order_id = oid, item_product_id = product_id item,
                  item_quantity = quantity item, item_price = price found\<rparr>"
      using f Some by (simp add: item_row_def catalog_price_def)
    from "2.IH"(2) [OF f Some qi] rest
    show ?thesis using f Some qi r row by simp
  qed
qed

subsection \<open>Checkout submission\<close>

lemma checkout_invalid:
  "\<not> fields_valid (form r) \<Longrightarrow>
   handle_checkout_post e w r =
     (SendError 400 ''Missing required fields'',
      w\<lparr>sessions := snd (snd (get_session (sessions w) r))\<rparr>)"
  by (auto simp: handle_checkout_post_def fields_valid_def Let_def split: prod.splits)

lemma checkout_empty:
  "fields_valid (form r) \<Longrightarrow> get_cart (request_session w r) = [] \<Longrightarrow>
   handle_checkout_post e w r =
     (SendError 400 ''Cart is empty'',
      w\<lparr>sessions := snd (snd (get_session (sessions w) r))\<rparr>)"
  by (auto simp: handle_checkout_post_def fields_valid_def request_session_def Let_def
           split: prod.splits)

lemma checkout_raised:
  assumes "fields_valid (form r)" and "get_cart (request_session w r) \<noteq> []"
    and "\<not> storable (db w) (get_cart (request_session w r))"
  shows "handle_checkout_post e w r =
           (Raised OverflowError, w\<lparr>sessions := snd (snd (get_session (sessions w) r))\<rparr>)"
  using assms
  by (auto simp: handle_checkout_post_def fields_valid_def request_session_def Let_def
                 insert_order_def save_items_unstorable
           split: prod.splits)

lemma checkout_ok:
  assumes "fields_valid (form r)" and "get_cart (request_session w r) \<noteq> []"
    and "storable (db w) (get_cart (request_session w r))"
  shows "fst (handle_checkout_post e w r) = confirmation w r"
    and "orders (db (snd (handle_checkout_post e w r))) = orders (db w) @ [placed_order w r]"
    and "order_items (db (snd (handle_checkout_post e w r))) =
           order_items (db w) @
           map (item_row (db w) (orders_seq (db w) + 1))
               (filter (resolves (db w)) (get_cart (request_session w r)))"
    and "product (db (snd (handle_checkout_post e w r))) = product (db w)"
    and "sessions (snd (handle_checkout_post e w r)) =
           (snd (snd (get_session (sessions w) r)))
             (request_sid w r \<mapsto>
                (request_session w r)\<lparr>cart := Some [], checkout_total := Some 0,
                   last_order_total := Some (order_total (placed_order w r))\<rparr>)"
proof -
  obtain sid s table where gs: "get_session (sessions w) r = (sid, s, table)"
    by (cases "get_session (sessions w) r")
  define d1 where "d1 = snd (insert_order (db w) (field (form r) ''name'')
       (field (form r) ''address'')
       (if field (form r) ''payment_method'' = ''card'' then field (form r) ''card_number'' else [])
       (case checkout_total s of None \<Rightarrow> 0 | Some t \<Rightarrow> t)
       (field (form r) ''phone'') (field (form r) ''payment_method'') (field (form r) ''email''))"
  have d1: "product d1 = product (db w)" "orders d1 = orders (db w) @ [placed_order w r]"
    "orders_seq d1 = orders_seq (db w) + 1" "order_items d1 = order_items (db w)"
    "storable d1 = storable (db w)" "item_row d1 = item_row (db w)"
    "resolves d1 = resolves (db w)"
    by (simp_all add: d1_def insert_order_def placed_order_def request_session_def gs Let_def)
  from assms(3) gs have "storable d1 (get_cart s)"
    by (simp add: d1 request_session_def)
  from save_items_storable [OF this, of "orders_seq (db w) + 1"]
  obtain d2 where d2: "save_items d1 (orders_seq (db w) + 1) (get_cart s) = Inr d2"
    "product d2 = product d1" "orders d2 = orders d1" "orders_seq d2 = orders_seq d1"
    "order_items d2 = order_items d1 @
       map (item_row d1 (orders_seq (db w) + 1)) (filter (resolves d1) (get_cart s))"
    by blast
  have h: "fst (handle_checkout_post e w r) = Redirect 303 (''/confirmation?lang='' @ lang s)
         \<and> db (snd (handle_checkout_post e w r)) = d2
         \<and> sessions (snd (handle_checkout_post e w r)) =
             table(sid \<mapsto> s\<lparr>cart := Some [], checkout_total := Some 0,
                last_order_total := Some (case checkout_total s of None \<Rightarrow> 0 | Some t \<Rightarrow> t)\<rparr>)"
    using assms(1,2) gs d2(1)
    by (simp add: handle_checkout_post_def fields_valid_def request_session_def Let_def
                  insert_order_def d1_def)
  from h gs show "fst (handle_checkout_post e w r) = confirmation w r"
    by (simp add: confirmation_def request_session_def)
  from h d2 d1 show "orders (db (snd (handle_checkout_post e w r)))
                       = orders (db w) @ [placed_order w r]"
    by simp
  from h d2 d1 gs show "order_items (db (snd (handle_checkout_post e w r))) =
           order_items (db w) @
           map (item_row (db w) (orders_seq (db w) + 1))
               (filter (resolves (db w)) (get_cart (request_session w r)))"
    by (simp add: request_session_def)
  from h d2 d1 show "product (db (snd (handle_checkout_post e w r))) = product (db w)"
    by simp
  from h gs show "sessions (snd (handle_checkout_post e w r)) =
           (snd (snd (get_session (sessions w) r)))
             (request_sid w r \<mapsto>
                (request_session w r)\<lparr>cart := Some [], checkout_total := Some 0,
                   last_order_total := Some (order_total (placed_order w r))\<rparr>)"
    by (simp add: request_session_def request_sid_def placed_order_def)
qed

lemma checkout_failure_state:
  assumes "\<not> (fields_valid (form r) \<and> get_cart (request_session w r) \<noteq> []
              \<and> storable (db w) (get_cart (request_session w r)))"
  shows "db (snd (handle_checkout_post e w r)) = db w
   \<and> orders_csv (snd (handle_checkout_post e w r)) = orders_csv w
   \<and> sent_mail (snd (handle_checkout_post e w r)) = sent_mail w
   \<and> sessions (snd (handle_checkout_post e w r)) (request_sid w r) = Some (request_session w r)
   \<and> sessions (snd (handle_checkout_post e w r)) = snd (snd (get_session (sessions w) r))
   \<and> fst (handle_checkout_post e w r) \<noteq> confirmation w r"
proof -
  have entry: "snd (snd (get_session (sessions w) r)) (request_sid w r)
                 = Some (request_session w r)"
    by (auto simp: request_sid_def request_session_def get_session_def split: option.splits)
  consider "\<not> fields_valid (form r)"
    | "fields_valid (form r)" "get_cart (request_session w r) = []"
    | "fields_valid (form r)" "get_cart (request_session w r) \<noteq> []"
      "\<not> storable (db w) (get_cart (request_session w r))"
    using assms by blast
  then show ?thesis
  proof cases
    case 1
    then show ?thesis using entry by (simp add: checkout_invalid confirmation_def)
  next
    case 2
    then show ?thesis using entry by (simp add: checkout_empty confirmation_def)
  next
    case 3
    then show ?thesis using entry by (simp add: checkout_raised confirmation_def)
  qed
qed

lemma checkout_succeeds_iff:
  "fst (handle_checkout_post e w r) = confirmation w r \<longleftrightarrow>
     fields_valid (form r) \<and> get_cart (request_session w r) \<noteq> []
     \<and> storable (db w) (get_cart (request_session w r))"
  using checkout_failure_state [of r w e] checkout_ok(1) [of r w e] by blast

lemma checkout_redirect:
  assumes "fst (handle_checkout_post e w r) = Redirect 303 loc"
  shows "fst (handle_checkout_post e w r) = confirmation w r"
proof (rule ccontr)
  assume n: "fst (handle_checkout_post e w r) \<noteq> confirmation w r"
  then have "\<not> (fields_valid (form r) \<and> get_cart (request_session w r) \<noteq> []
              \<and> storable (db w) (get_cart (request_session w r)))"
    by (simp add: checkout_succeeds_iff)
  then consider "\<not> fields_valid (form r)"
    | "fields_valid (form r)" "get_cart (request_session w r) = []"
    | "fields_valid (form r)" "get_cart (request_session w r) \<noteq> []"
      "\<not> storable (db w) (get_cart (request_session w r))"
    by blast
  then show False
    using assms by cases (simp_all add: checkout_invalid checkout_empty checkout_raised)
qed

lemma known_session_unchanged:
  "cookie r = Some sid \<Longrightarrow> sid \<noteq> [] \<Longrightarrow> sessions w sid = Some s \<Longrightarrow>
   get_session (sessions w) r = (sid, s, sessions w)"
  by (simp add: get_session_def)

lemmas eval_defs = serve_def do_GET_def do_POST_def get_session_def new_session_def
  handle_add_to_cart_def handle_update_cart_def render_checkout_def get_cart_def
  sample_env_def sample_db_def sample_world_def get_request_def post_request_def
  fetch_product_def handle_checkout_post_def field_def strip_def is_space_def
  insert_order_def append_csv_def csv_header_def send_order_email_def falsy_def truthy_def
  cents2_def two_digits_def digit_def str_int_def request_session_def request_sid_def
  cash_form_def card_form_def fields_valid_def Let_def in_int64_def
  float_times_int_bindable

lemma added_world_eq:
  "added_world =
     \<lparr>sessions = [''s1'' \<mapsto> \<lparr>cart = Some [\<lparr>product_id = 1, quantity = 1\<rparr>], lang = ''ar'',
                              checkout_total = None, last_order_total = None\<rparr>],
      db = sample_db, orders_csv = None, sent_mail = []\<rparr>"
  by (simp add: added_world_def eval_defs)

lemma reviewed_world_eq:
  "reviewed_world =
     \<lparr>sessions = [''s1'' \<mapsto> \<lparr>cart = Some [\<lparr>product_id = 1, quantity = 1\<rparr>], lang = ''ar'',
                              checkout_total = Some 15, last_order_total = None\<rparr>],
      db = sample_db, orders_csv = None, sent_mail = []\<rparr>"
  by (simp add: reviewed_world_def eval_defs)

lemma stale_world_eq:
  "stale_world =
     \<lparr>sessions = [''s1'' \<mapsto> \<lparr>cart = Some [\<lparr>product_id = 1, quantity = 2\<rparr>], lang = ''ar'',
                              checkout_total = Some 15, last_order_total = None\<rparr>],
      db = sample_db, orders_csv = None, sent_mail = []\<rparr>"
  by (simp add: stale_world_def eval_defs)

lemma unknown_product_world_eq:
  "unknown_product_world =
     \<lparr>sessions = [''s1'' \<mapsto> \<lparr>cart = Some [\<lparr>product_id = 999, quantity = 1\<rparr>], lang = ''ar'',
                              checkout_total = None, last_order_total = None\<rparr>],
      db = sample_db, orders_csv = None, sent_mail = []\<rparr>"
  by (simp add: unknown_product_world_def eval_defs)


text \<open>
  Claim C9. A submission with a blank required field (name, phone, address or payment
  method) and an empty cart is answered with the missing-fields error (ValidationError),
  not with the empty-cart error.
\<close>

theorem validation_precedes_empty_cart:
  assumes "field (form r) ''name'' = [] \<or> field (form r) ''phone'' = []
           \<or> field (form r) ''address'' = [] \<or> field (form r) ''payment_method'' = []"
    and "get_cart (request_session w r) = []"
  shows "fst (handle_checkout_post e w r) = SendError 400 ''Missing required fields''
       \<and> fst (handle_checkout_post e w r) \<noteq> SendError 400 ''Cart is empty''"
proof -
  from assms(1) have "\<not> fields_valid (form r)"
    by (auto simp: fields_valid_def)
  then show ?thesis by (simp add: checkout_invalid)
qed

theorem validation_precedes_empty_cart_witness:
  "field (form (post_request None Map.empty)) ''name'' = []
   \<and> get_cart (request_session sample_world (post_request None Map.empty)) = []
   \<and> fst (handle_checkout_post sample_env sample_world (post_request None Map.empty))
       = SendError 400 ''Missing required fields''"
  using validation_precedes_empty_cart
          [of "post_request None Map.empty" sample_world sample_env]
  by (simp add: eval_defs)

text \<open>
  Claim C4, as stated, fails: with an empty cart and a phone field of two spaces the
  reply is not the empty-cart error.
\<close>

theorem empty_cart_counterexample:
  "get_cart (request_session sample_world
               (post_request None [''name'' \<mapsto> ''A'', ''phone'' \<mapsto> ''  '', ''address'' \<mapsto> ''X'',
                                   ''payment_method'' \<mapsto> ''cash''])) = []
   \<and> fst (handle_checkout_post sample_env sample_world
            (post_request None [''name'' \<mapsto> ''A'', ''phone'' \<mapsto> ''  '', ''address'' \<mapsto> ''X'',
                                ''payment_method'' \<mapsto> ''cash'']))
       \<noteq> SendError 400 ''Cart is empty''"
  by (simp add: eval_defs)

text \<open>
  Claim C4, amended. A submission served in a session whose cart is empty is answered
  with a 400 error and persists nothing: the database, the audit file and the mail
  transport are as before. The error is the empty-cart one (EmptyCartError) when all
  required fields are non-blank, and the missing-fields one (ValidationError) otherwise.
\<close>

theorem empty_cart_rejected:
  assumes "get_cart (request_session w r) = []"
  shows "(\<exists>msg. fst (handle_checkout_post e w r) = SendError 400 msg)
       \<and> (fields_valid (form r) \<longrightarrow>
            fst (handle_checkout_post e w r) = SendError 400 ''Cart is empty'')
       \<and> (\<not> fields_valid (form r) \<longrightarrow>
            fst (handle_checkout_post e w r) = SendError 400 ''Missing required fields'')
       \<and> db (snd (handle_checkout_post e w r)) = db w
       \<and> orders_csv (snd (handle_checkout_post e w r)) = orders_csv w
       \<and> sent_mail (snd (handle_checkout_post e w r)) = sent_mail w"
  using assms checkout_failure_state [of r w e]
  by (cases "fields_valid (form r)") (simp_all add: checkout_invalid checkout_empty)

theorem empty_cart_rejected_witness:
  "get_cart (request_session sample_world (post_request None cash_form)) = []
   \<and> fields_valid (form (post_request None cash_form))
   \<and> fst (handle_checkout_post sample_env sample_world (post_request None cash_form))
       = SendError 400 ''Cart is empty''
   \<and> db (snd (handle_checkout_post sample_env sample_world (post_request None cash_form)))
       = db sample_world"
  using empty_cart_rejected [of sample_world "post_request None cash_form" sample_env]
  by (simp add: eval_defs)

text \<open>
  Claim C5. A submission whose phone field is blank after trimming is answered with the
  missing-fields error (ValidationError); the database, the audit file and the mail
  transport are unchanged, the session it is served in is unchanged (its cart included),
  and when that session already existed the whole server state is unchanged.
\<close>

theorem blank_phone_rejected:
  assumes "field (form r) ''phone'' = []"
  shows "fst (handle_checkout_post e w r) = SendError 400 ''Missing required fields''
       \<and> db (snd (handle_checkout_post e w r)) = db w
       \<and> orders_csv (snd (handle_checkout_post e w r)) = orders_csv w
       \<and> sent_mail (snd (handle_checkout_post e w r)) = sent_mail w
       \<and> sessions (snd (handle_checkout_post e w r)) (request_sid w r)
           = Some (request_session w r)
       \<and> (cookie r = Some sid \<and> sid \<noteq> [] \<and> sessions w sid = Some s \<longrightarrow>
            snd (handle_checkout_post e w r) = w)"
proof -
  from assms have inv: "\<not> fields_valid (form r)"
    by (simp add: fields_valid_def)
  then have "cookie r = Some sid \<and> sid \<noteq> [] \<and> sessions w sid = Some s \<longrightarrow>
             snd (handle_checkout_post e w r) = w"
    by (simp add: checkout_invalid known_session_unchanged)
  with inv checkout_failure_state [of r w e] show ?thesis
    by (simp add: checkout_invalid)
qed

theorem blank_phone_rejected_witness:
  "field (form (post_request (Some ''s1'')
                  [''name'' \<mapsto> ''A'', ''phone'' \<mapsto> ''  '', ''address'' \<mapsto> ''X'',
                   ''payment_method'' \<mapsto> ''cash''])) ''phone'' = []
   \<and> fst (handle_checkout_post sample_env reviewed_world
            (post_request (Some ''s1'')
               [''name'' \<mapsto> ''A'', ''phone'' \<mapsto> ''  '', ''address'' \<mapsto> ''X'',
                ''payment_method'' \<mapsto> ''cash'']))
       = SendError 400 ''Missing required fields''
   \<and> snd (handle_checkout_post sample_env reviewed_world
            (post_request (Some ''s1'')
               [''name'' \<mapsto> ''A'', ''phone'' \<mapsto> ''  '', ''address'' \<mapsto> ''X'',
                ''payment_method'' \<mapsto> ''cash''])) = reviewed_world"
  using blank_phone_rejected
          [of "post_request (Some ''s1'')
                 [''name'' \<mapsto> ''A'', ''phone'' \<mapsto> ''  '', ''address'' \<mapsto> ''X'',
                  ''payment_method'' \<mapsto> ''cash'']"
              sample_env reviewed_world "''s1''"
              "\<lparr>cart = Some [\<lparr>product_id = 1, quantity = 1\<rparr>], lang = ''ar'',
                checkout_total = Some 15, last_order_total = None\<rparr>"]
  by (simp add: reviewed_world_eq post_request_def field_def strip_def is_space_def)



text \<open>
  Claim C3, as stated, fails: a cart whose single line is a product the catalog does not
  have is checked out with one order header and no order-item row.
\<close>

theorem item_rows_counterexample:
  "fst (handle_checkout_post sample_env unknown_product_world
          (post_request (Some ''s1'') cash_form)) = Redirect 303 ''/confirmation?lang=ar''
   \<and> length (get_cart (request_session unknown_product_world
                 (post_request (Some ''s1'') cash_form))) = 1
   \<and> length (orders (db (snd (handle_checkout_post sample_env unknown_product_world
                 (post_request (Some ''s1'') cash_form))))) = 1
   \<and> order_items (db (snd (handle_checkout_post sample_env unknown_product_world
                 (post_request (Some ''s1'') cash_form)))) = []"
  by (simp add: unknown_product_world_eq eval_defs)

text \<open>
  Claim C3, amended. A submission that succeeds, that is, one answered with a 303
  redirect, has valid fields and a non-empty cart and is redirected to the confirmation
  page; exactly one order header is appended; one order-item row is appended per cart line
  whose product the catalog resolves, in cart order, carrying the new order id, the
  line's product and quantity and the catalog price (so one row per cart line when every
  line resolves); the session's cart is left empty and its last-order total is the total
  of the persisted order.
\<close>

theorem successful_checkout_effects:
  assumes "fst (handle_checkout_post e w r) = Redirect 303 loc"
  shows "fields_valid (form r) \<and> get_cart (request_session w r) \<noteq> []
       \<and> loc = ''/confirmation?lang='' @ lang (request_session w r)
       \<and> orders (db (snd (handle_checkout_post e w r))) = orders (db w) @ [placed_order w r]
       \<and> order_items (db (snd (handle_checkout_post e w r)))
           = order_items (db w) @
             map (item_row (db w) (order_id (placed_order w r)))
                 (filter (resolves (db w)) (get_cart (request_session w r)))
       \<and> ((\<forall>item \<in> set (get_cart (request_session w r)). resolves (db w) item) \<longrightarrow>
            length (order_items (db (snd (handle_checkout_post e w r))))
              = length (order_items (db w)) + length (get_cart (request_session w r)))
       \<and> (\<exists>s'. sessions (snd (handle_checkout_post e w r)) (request_sid w r) = Some s'
              \<and> get_cart s' = []
              \<and> last_order_total s' = Some (order_total (placed_order w r)))"
proof -
  from assms have c: "fst (handle_checkout_post e w r) = confirmation w r"
    by (rule checkout_redirect)
  then have ok: "fields_valid (form r)" "get_cart (request_session w r) \<noteq> []"
    "storable (db w) (get_cart (request_session w r))"
    by (simp_all add: checkout_succeeds_iff)
  from assms c have "loc = ''/confirmation?lang='' @ lang (request_session w r)"
    by (simp add: confirmation_def)
  with ok show ?thesis
    by (simp add: checkout_ok [OF ok] placed_order_def get_cart_def)
qed

theorem successful_checkout_effects_witness:
  "fst (handle_checkout_post sample_env reviewed_world (post_request (Some ''s1'') cash_form))
     = Redirect 303 ''/confirmation?lang=ar''
   \<and> orders (db (snd (handle_checkout_post sample_env reviewed_world
                        (post_request (Some ''s1'') cash_form))))
       = [\<lparr>order_id = 1, customer_name = ''A'', customer_address = ''X'', card_number = [],
           order_total = 15, customer_phone = ''123'', payment_method = ''cash'',
           customer_email = []\<rparr>]
   \<and> order_items (db (snd (handle_checkout_post sample_env reviewed_world
                             (post_request (Some ''s1'') cash_form))))
       = [\<lparr>item_order_id = 1, item_product_id = 1, item_quantity = 1, item_price = 15\<rparr>]
   \<and> sessions (snd (handle_checkout_post sample_env reviewed_world
                       (post_request (Some ''s1'') cash_form))) ''s1''
       = Some \<lparr>cart = Some [], lang = ''ar'', checkout_total = Some 0,
               last_order_total = Some 15\<rparr>"
proof -
  have a: "fst (handle_checkout_post sample_env reviewed_world
                  (post_request (Some ''s1'') cash_form))
             = Redirect 303 ''/confirmation?lang=ar''"
    by (simp add: reviewed_world_eq eval_defs)
  from successful_checkout_effects [OF a] show ?thesis
    using a by (simp add: reviewed_world_eq eval_defs)
qed

lemma checkout_reads_six_fields:
  assumes "f' ''name'' = form r ''name''" "f' ''email'' = form r ''email''"
    "f' ''phone'' = form r ''phone''" "f' ''address'' = form r ''address''"
    "f' ''payment_method'' = form r ''payment_method''"
    "f' ''card_number'' = form r ''card_number''"
  shows "handle_checkout_post e w (r\<lparr>form := f'\<rparr>) = handle_checkout_post e w r"
proof -
  have g: "get_session (sessions w) (r\<lparr>form := f'\<rparr>) = get_session (sessions w) r"
    by (simp add: get_session_def split: option.splits)
  have f: "field f' ''name'' = field (form r) ''name''"
    "field f' ''email'' = field (form r) ''email''"
    "field f' ''phone'' = field (form r) ''phone''"
    "field f' ''address'' = field (form r) ''address''"
    "field f' ''payment_method'' = field (form r) ''payment_method''"
    "field f' ''card_number'' = field (form r) ''card_number''"
    using assms by (simp_all add: field_def)
  show ?thesis
    unfolding handle_checkout_post_def g
    by (cases "get_session (sessions w) r")
       (simp add: f Let_def split_def cong: sum.case_cong)
qed

lemma review_page:
  assumes "fst (render_checkout d s) = Page 200 ''checkout.html''"
  shows "\<exists>t. cart_total d (get_cart s) 0 = Inr t
           \<and> snd (render_checkout d s) = s\<lparr>checkout_total := Some t\<rparr>"
  using assms by (auto simp: render_checkout_def split: if_splits sum.splits)

text \<open>
  Claim C1, as stated, fails: after the checkout page was shown for one unit of product 1
  (15.00) and a second unit was added, the submission persists 15.00 while the Review
  total of the cart at submission time is 30.00.
\<close>

theorem stale_total_counterexample:
  "fst (handle_checkout_post sample_env stale_world (post_request (Some ''s1'') cash_form))
     = Redirect 303 ''/confirmation?lang=ar''
   \<and> map order_total (orders (db (snd (handle_checkout_post sample_env stale_world
           (post_request (Some ''s1'') cash_form))))) = [15]
   \<and> cart_total (db stale_world)
        (get_cart (request_session stale_world (post_request (Some ''s1'') cash_form))) 0
       = Inr 30"
  by (simp add: stale_world_eq eval_defs)

text \<open>
  Claim C1, amended. The total persisted by a submission that succeeds (one answered with
  a 303 redirect) is the value the session holds under \<^verbatim>\<open>'checkout_total'\<close> at
  submission time, 0 when it holds none. When the session is exactly as a Review that
  rendered the checkout page left it, that value is the Review total of the cart at
  submission time. The form is read only at the fields name, email, phone, address,
  payment method and card number: no other field a client supplies, such as a total or a
  price, changes the reply or the state.
\<close>

theorem order_total_from_session:
  assumes "fst (handle_checkout_post e w r) = Redirect 303 loc"
  shows "map order_total (orders (db (snd (handle_checkout_post e w r))))
           = map order_total (orders (db w)) @
             [case checkout_total (request_session w r) of None \<Rightarrow> 0 | Some t \<Rightarrow> t]
       \<and> (\<forall>s. fst (render_checkout (db w) s) = Page 200 ''checkout.html''
               \<and> request_session w r = snd (render_checkout (db w) s) \<longrightarrow>
              (\<exists>t. cart_total (db w) (get_cart (request_session w r)) 0 = Inr t
                  \<and> map order_total (orders (db (snd (handle_checkout_post e w r))))
                      = map order_total (orders (db w)) @ [t]))
       \<and> (\<forall>f'. f' ''name'' = form r ''name'' \<and> f' ''email'' = form r ''email''
               \<and> f' ''phone'' = form r ''phone'' \<and> f' ''address'' = form r ''address''
               \<and> f' ''payment_method'' = form r ''payment_method''
               \<and> f' ''card_number'' = form r ''card_number'' \<longrightarrow>
              handle_checkout_post e w (r\<lparr>form := f'\<rparr>) = handle_checkout_post e w r)"
proof (intro conjI allI impI)
  from assms have "fst (handle_checkout_post e w r) = confirmation w r"
    by (rule checkout_redirect)
  then have ok: "fields_valid (form r)" "get_cart (request_session w r) \<noteq> []"
    "storable (db w) (get_cart (request_session w r))"
    by (simp_all add: checkout_succeeds_iff)
  show tot: "map order_total (orders (db (snd (handle_checkout_post e w r))))
           = map order_total (orders (db w)) @
             [case checkout_total (request_session w r) of None \<Rightarrow> 0 | Some t \<Rightarrow> t]"
    by (simp add: checkout_ok(2) [OF ok] placed_order_def)
  show "\<exists>t. cart_total (db w) (get_cart (request_session w r)) 0 = Inr t
          \<and> map order_total (orders (db (snd (handle_checkout_post e w r))))
              = map order_total (orders (db w)) @ [t]"
    if rv: "fst (render_checkout (db w) s) = Page 200 ''checkout.html''
            \<and> request_session w r = snd (render_checkout (db w) s)" for s
  proof -
    from rv review_page [of "db w" s] obtain t where
      t: "cart_total (db w) (get_cart s) 0 = Inr t"
         "request_session w r = s\<lparr>checkout_total := Some t\<rparr>"
      by auto
    from t(2) have "get_cart (request_session w r) = get_cart s"
      "checkout_total (request_session w r) = Some t"
      by (simp_all add: get_cart_def)
    with t(1) tot show ?thesis by simp
  qed
  show "handle_checkout_post e w (r\<lparr>form := f'\<rparr>) = handle_checkout_post e w r"
    if "f' ''name'' = form r ''name'' \<and> f' ''email'' = form r ''email''
               \<and> f' ''phone'' = form r ''phone'' \<and> f' ''address'' = form r ''address''
               \<and> f' ''payment_method'' = form r ''payment_method''
               \<and> f' ''card_number'' = form r ''card_number''" for f'
    using that by (intro checkout_reads_six_fields) simp_all
qed

theorem order_total_from_session_witness:
  "fst (handle_checkout_post sample_env reviewed_world (post_request (Some ''s1'') cash_form))
     = Redirect 303 ''/confirmation?lang=ar''
   \<and> map order_total (orders (db (snd (handle_checkout_post sample_env reviewed_world
           (post_request (Some ''s1'') cash_form))))) = [15]
   \<and> handle_checkout_post sample_env reviewed_world
        ((post_request (Some ''s1'') cash_form)\<lparr>form := cash_form(''total'' \<mapsto> ''0.01'')\<rparr>)
       = handle_checkout_post sample_env reviewed_world (post_request (Some ''s1'') cash_form)"
proof -
  have a: "fst (handle_checkout_post sample_env reviewed_world
                  (post_request (Some ''s1'') cash_form))
             = Redirect 303 ''/confirmation?lang=ar''"
    by (simp add: reviewed_world_eq eval_defs)
  have t: "checkout_total (request_session reviewed_world (post_request (Some ''s1'') cash_form))
             = Some 15"
    by (simp add: reviewed_world_eq eval_defs)
  have o: "orders (db reviewed_world) = []"
    by (simp add: reviewed_world_eq sample_db_def)
  have f: "form (post_request (Some ''s1'') cash_form) = cash_form"
    by (simp add: post_request_def)
  note th = order_total_from_session [OF a]
  from th have 1: "map order_total (orders (db (snd (handle_checkout_post sample_env reviewed_world
           (post_request (Some ''s1'') cash_form))))) = [15]"
    by (simp add: t o)
  from th have "(cash_form(''total'' \<mapsto> ''0.01'')) ''name'' = form (post_request (Some ''s1'') cash_form) ''name''
        \<and> (cash_form(''total'' \<mapsto> ''0.01'')) ''email'' = form (post_request (Some ''s1'') cash_form) ''email''
        \<and> (cash_form(''total'' \<mapsto> ''0.01'')) ''phone'' = form (post_request (Some ''s1'') cash_form) ''phone''
        \<and> (cash_form(''total'' \<mapsto> ''0.01'')) ''address'' = form (post_request (Some ''s1'') cash_form) ''address''
        \<and> (cash_form(''total'' \<mapsto> ''0.01'')) ''payment_method''
            = form (post_request (Some ''s1'') cash_form) ''payment_method''
        \<and> (cash_form(''total'' \<mapsto> ''0.01'')) ''card_number''
            = form (post_request (Some ''s1'') cash_form) ''card_number'' \<longrightarrow>
      handle_checkout_post sample_env reviewed_world
        ((post_request (Some ''s1'') cash_form)\<lparr>form := cash_form(''total'' \<mapsto> ''0.01'')\<rparr>)
       = handle_checkout_post sample_env reviewed_world (post_request (Some ''s1'') cash_form)"
    by blast
  then have 2: "handle_checkout_post sample_env reviewed_world
        ((post_request (Some ''s1'') cash_form)\<lparr>form := cash_form(''total'' \<mapsto> ''0.01'')\<rparr>)
       = handle_checkout_post sample_env reviewed_world (post_request (Some ''s1'') cash_form)"
    by (simp add: f)
  from a 1 2 show ?thesis by blast
qed

lemma item_descriptions_bindable:
  "list_all (\<lambda>item. in_int64 (product_id item)) c \<Longrightarrow> \<exists>ds. item_descriptions d c = Inr ds"
  by (induction c) (auto simp: fetch_product_def)

lemma storable_bindable:
  "storable d c \<Longrightarrow> list_all (\<lambda>item. in_int64 (product_id item)) c"
  by (induction c) (auto simp: storable_def)

lemma audit_row_card_field:
  assumes "fst (handle_checkout_post e w r) = Redirect 303 loc"
  shows "\<exists>rows row. orders_csv (snd (handle_checkout_post e w r)) = Some (rows @ [row])
           \<and> length row = 9
           \<and> row ! 6 = (if field (form r) ''payment_method'' = ''card''
                        then field (form r) ''card_number'' else [])"
proof -
  from assms have "fst (handle_checkout_post e w r) = confirmation w r"
    by (rule checkout_redirect)
  then have ok: "fields_valid (form r)" "get_cart (request_session w r) \<noteq> []"
    "storable (db w) (get_cart (request_session w r))"
    by (simp_all add: checkout_succeeds_iff)
  obtain sid s table where gs: "get_session (sessions w) r = (sid, s, table)"
    by (cases "get_session (sessions w) r")
  define d1 where "d1 = snd (insert_order (db w) (field (form r) ''name'')
       (field (form r) ''address'')
       (if field (form r) ''payment_method'' = ''card'' then field (form r) ''card_number'' else [])
       (case checkout_total s of None \<Rightarrow> 0 | Some t \<Rightarrow> t)
       (field (form r) ''phone'') (field (form r) ''payment_method'') (field (form r) ''email''))"
  have "storable d1 = storable (db w)"
    by (simp add: d1_def insert_order_def Let_def)
  with ok(3) gs have st: "storable d1 (get_cart s)"
    by (simp add: request_session_def)
  from save_items_storable [OF st, of "orders_seq (db w) + 1"]
  obtain d2 where d2: "save_items d1 (orders_seq (db w) + 1) (get_cart s) = Inr d2"
    by blast
  from item_descriptions_bindable [OF storable_bindable [OF st], of d2]
  obtain ds where ds: "item_descriptions d2 (get_cart s) = Inr ds"
    by blast
  have "orders_csv (snd (handle_checkout_post e w r))
          = append_csv (orders_csv w)
              [timestamp r, field (form r) ''name'', field (form r) ''email'',
               field (form r) ''phone'', field (form r) ''address'',
               field (form r) ''payment_method'',
               (if field (form r) ''payment_method'' = ''card''
                then field (form r) ''card_number'' else []),
               join ''; '' ds, fmt2 e (case checkout_total s of None \<Rightarrow> 0 | Some t \<Rightarrow> t)]"
    using ok(1,2) gs d2 ds
    by (simp add: handle_checkout_post_def fields_valid_def request_session_def Let_def
                  insert_order_def d1_def)
  then show ?thesis
    by (cases "orders_csv w") (auto simp: append_csv_def intro!: exI [of _ "[csv_header]"])
qed

text \<open>
  Claim C2 on the code: a card payment with card reference \<^verbatim>\<open>4111111111111111\<close> leaves
  the whole reference in the card field of the audit row.
\<close>

theorem audit_row_shows_card_number:
  "orders_csv (snd (handle_checkout_post sample_env reviewed_world
                      (post_request (Some ''s1'') card_form)))
     = Some [csv_header,
             [''2025-01-01 12:05:00'', ''A'', '''', ''123'', ''X'', ''card'',
              ''4111111111111111'', ''Pizza Margherita x 1'', ''15.00'']]"
  by (simp add: reviewed_world_eq eval_defs)

subsection \<open>Sessions without a Review\<close>

lemma get_session_entry:
  "snd (snd (get_session t r)) (fst (get_session t r)) = Some (fst (snd (get_session t r)))"
  by (auto simp: get_session_def split: option.splits)

lemma get_session_total_unset:
  "total_unset (t x) \<Longrightarrow> total_unset (snd (snd (get_session t r)) x)"
  by (auto simp: get_session_def total_unset_def new_session_def split: option.splits)

lemma checkout_total_add [simp]:
  "checkout_total (snd (handle_add_to_cart s p)) = checkout_total s"
  by (simp add: handle_add_to_cart_def split: int_param.splits)

lemma checkout_total_update [simp]:
  "checkout_total (snd (handle_update_cart s p a)) = checkout_total s"
  by (simp add: handle_update_cart_def Let_def split: int_param.splits option.splits)

lemma checkout_total_review:
  "get_cart s = [] \<or> (\<exists>err. cart_total d (get_cart s) 0 = Inl err) \<Longrightarrow>
   snd (render_checkout d s) = s"
  by (auto simp: render_checkout_def)

lemma checkout_sessions:
  "sessions (snd (handle_checkout_post e w r)) =
     (if fst (handle_checkout_post e w r) = confirmation w r
      then (snd (snd (get_session (sessions w) r)))
             (request_sid w r \<mapsto>
                (request_session w r)\<lparr>cart := Some [], checkout_total := Some 0,
                   last_order_total :=
                     Some (case checkout_total (request_session w r) of
                             None \<Rightarrow> 0 | Some t \<Rightarrow> t)\<rparr>)
      else snd (snd (get_session (sessions w) r)))"
proof (cases "fields_valid (form r) \<and> get_cart (request_session w r) \<noteq> []
              \<and> storable (db w) (get_cart (request_session w r))")
  case True
  then show ?thesis
    by (simp add: checkout_ok(1,5) placed_order_def)
next
  case False
  from checkout_failure_state [OF False, of e] show ?thesis
    by simp
qed

lemma do_POST_total_unset:
  assumes "total_unset (sessions w sid)"
  shows "total_unset (sessions (snd (do_POST e w r)) sid)"
proof (cases "path r = ''/checkout''")
  case False
  with assms show ?thesis by (simp add: do_POST_def)
next
  case True
  from assms have "total_unset (snd (snd (get_session (sessions w) r)) sid)"
    using get_session_total_unset [of "sessions w" sid r] by simp
  with True show ?thesis
    by (simp add: do_POST_def checkout_sessions total_unset_def)
qed

lemma get_cart_lang [simp]: "get_cart (s\<lparr>lang := l\<rparr>) = get_cart s"
  by (simp add: get_cart_def)

lemma do_GET_session_total:
  assumes "path r \<noteq> ''/checkout'' \<or> get_cart (request_session w r) = []
           \<or> (\<exists>err. cart_total (db w) (get_cart (request_session w r)) 0 = Inl err)"
  shows "\<exists>s'. sessions (snd (do_GET e w r))
                 = (snd (snd (get_session (sessions w) r)))(request_sid w r \<mapsto> s')
              \<and> checkout_total s' = checkout_total (request_session w r)"
proof -
  obtain sid s0 t where gs: "get_session (sessions w) r = (sid, s0, t)"
    by (cases "get_session (sessions w) r")
  define s where "s = s0\<lparr>lang := (case query_lang r of None \<Rightarrow> lang s0 | Some l \<Rightarrow> l)\<rparr>"
  define s' where "s' =
     snd (if path r = ''/add_to_cart'' then handle_add_to_cart s (query_product_id r)
          else if path r = ''/update_cart''
            then handle_update_cart s (query_product_id r) (query_action r)
          else if path r = ''/checkout'' then render_checkout (db w) s
          else (other_page e (path r) s (db w), s))"
  have 1: "sessions (snd (do_GET e w r)) = t(sid \<mapsto> s')"
    by (simp add: do_GET_def gs Let_def split_def s'_def s_def cong: option.case_cong)
  from assms gs have "path r \<noteq> ''/checkout'' \<or> get_cart s = []
                      \<or> (\<exists>err. cart_total (db w) (get_cart s) 0 = Inl err)"
    by (simp add: request_session_def s_def)
  then have 2: "checkout_total s' = checkout_total s0"
    by (auto simp: s'_def checkout_total_review) (simp_all add: s_def)
  from 1 2 gs show ?thesis
    by (auto simp: request_sid_def request_session_def)
qed

lemma do_GET_total_unset:
  assumes u: "total_unset (sessions w sid)"
    and n: "\<not> stores_total w r sid"
    and g: "http_method r = GET"
  shows "total_unset (sessions (snd (do_GET e w r)) sid)"
proof -
  have t: "total_unset (snd (snd (get_session (sessions w) r)) sid)"
    using u get_session_total_unset [of "sessions w" sid r] by simp
  show ?thesis
  proof (cases "sid = request_sid w r")
    case False
    have "\<exists>s'. sessions (snd (do_GET e w r))
                 = (snd (snd (get_session (sessions w) r)))(request_sid w r \<mapsto> s')"
      by (cases "get_session (sessions w) r")
         (auto simp: do_GET_def request_sid_def Let_def split_def)
    with False t show ?thesis by auto
  next
    case True
    with t have s0: "checkout_total (request_session w r) = None
                     \<or> checkout_total (request_session w r) = Some 0"
      using get_session_entry [of "sessions w" r]
      by (simp add: total_unset_def request_sid_def request_session_def)
    from n g True have "path r \<noteq> ''/checkout'' \<or> get_cart (request_session w r) = []
        \<or> (\<exists>err. cart_total (db w) (get_cart (request_session w r)) 0 = Inl err)"
      by (auto simp: stores_total_def split: sum.splits)
    from do_GET_session_total [OF this, of e] obtain s' where
      "sessions (snd (do_GET e w r))
         = (snd (snd (get_session (sessions w) r)))(request_sid w r \<mapsto> s')"
      "checkout_total s' = checkout_total (request_session w r)"
      by blast
    with s0 True show ?thesis by (simp add: total_unset_def)
  qed
qed

lemma serve_total_unset:
  "total_unset (sessions w sid) \<Longrightarrow> \<not> stores_total w r sid \<Longrightarrow>
   total_unset (sessions (snd (serve e w r)) sid)"
  by (cases "http_method r")
     (simp_all add: serve_def do_GET_total_unset do_POST_total_unset)

lemma serve_all_total_unset:
  "total_unset (sessions w sid) \<Longrightarrow> review_free e w sid rs \<Longrightarrow>
   total_unset (sessions (serve_all e w rs) sid)"
  by (induction rs arbitrary: w) (simp_all add: serve_total_unset)

lemma unset_session_total:
  assumes "total_unset (sessions w (request_sid w r))"
  shows "(case checkout_total (request_session w r) of None \<Rightarrow> 0 | Some t \<Rightarrow> t) = 0"
proof -
  have "checkout_total (request_session w r) = None
        \<or> checkout_total (request_session w r) = Some 0"
    using assms get_session_total_unset [of "sessions w" "request_sid w r" r]
      get_session_entry [of "sessions w" r]
    by (simp add: total_unset_def request_sid_def request_session_def)
  then show ?thesis by auto
qed

lemma unreviewed_total_zero:
  assumes "sessions w0 = Map.empty"
    and "review_free e w0 (request_sid (serve_all e w0 rs) r) rs"
    and "fst (handle_checkout_post e (serve_all e w0 rs) r) = Redirect 303 loc"
  shows "map order_total (orders (db (snd (handle_checkout_post e (serve_all e w0 rs) r))))
           = map order_total (orders (db (serve_all e w0 rs))) @ [0]"
proof -
  from assms(1) have "total_unset (sessions w0 (request_sid (serve_all e w0 rs) r))"
    by (simp add: total_unset_def)
  with assms(2) have "total_unset (sessions (serve_all e w0 rs)
                                     (request_sid (serve_all e w0 rs) r))"
    by (rule serve_all_total_unset [rotated])
  then have z: "(case checkout_total (request_session (serve_all e w0 rs) r) of
                None \<Rightarrow> 0 | Some t \<Rightarrow> t) = 0"
    by (rule unset_session_total)
  from assms(3) have "fst (handle_checkout_post e (serve_all e w0 rs) r)
                        = confirmation (serve_all e w0 rs) r"
    by (rule checkout_redirect)
  then have "fields_valid (form r)" "get_cart (request_session (serve_all e w0 rs) r) \<noteq> []"
    "storable (db (serve_all e w0 rs)) (get_cart (request_session (serve_all e w0 rs) r))"
    by (simp_all add: checkout_succeeds_iff)
  from checkout_ok(2) [OF this] z show ?thesis
    by (simp add: placed_order_def)
qed

lemma unbindable_world_eq:
  "unbindable_world =
     \<lparr>sessions = [''s1'' \<mapsto> \<lparr>cart = Some [\<lparr>product_id = 9223372036854775808, quantity = 1\<rparr>],
                              lang = ''ar'', checkout_total = None, last_order_total = None\<rparr>],
      db = sample_db, orders_csv = None, sent_mail = []\<rparr>"
  by (simp add: unbindable_world_def eval_defs)

text \<open>
  Claim C10 on the code: from the start of the server, after
  \<^verbatim>\<open>GET /add_to_cart?product_id=9223372036854775808\<close> and no Review, a submission with
  valid fields finds a non-empty cart, and the item loop raises \<^verbatim>\<open>OverflowError\<close>: no
  reply is sent and no order is persisted.
\<close>

theorem unbindable_cart_no_order:
  "sessions sample_world = Map.empty
   \<and> review_free sample_env sample_world
        (request_sid unbindable_world (post_request (Some ''s1'') cash_form))
        [get_request ''/add_to_cart'' None (Parsed 9223372036854775808) None]
   \<and> fields_valid (form (post_request (Some ''s1'') cash_form))
   \<and> get_cart (request_session unbindable_world (post_request (Some ''s1'') cash_form))
       = [\<lparr>product_id = 9223372036854775808, quantity = 1\<rparr>]
   \<and> handle_checkout_post sample_env unbindable_world (post_request (Some ''s1'') cash_form)
       = (Raised OverflowError, unbindable_world)
   \<and> orders (db unbindable_world) = []"
proof -
  have 1: "sessions sample_world = Map.empty"
    by (simp add: sample_world_def)
  have 2: "review_free sample_env sample_world
        (request_sid unbindable_world (post_request (Some ''s1'') cash_form))
        [get_request ''/add_to_cart'' None (Parsed 9223372036854775808) None]"
    by (simp add: stores_total_def get_request_def)
  have 3: "fields_valid (form (post_request (Some ''s1'') cash_form))"
    by (simp add: eval_defs)
  have 4: "get_cart (request_session unbindable_world (post_request (Some ''s1'') cash_form))
       = [\<lparr>product_id = 9223372036854775808, quantity = 1\<rparr>]"
    by (simp add: unbindable_world_eq eval_defs)
  have 5: "handle_checkout_post sample_env unbindable_world
             (post_request (Some ''s1'') cash_form) = (Raised OverflowError, unbindable_world)"
    by (simp add: unbindable_world_eq eval_defs)
  have 6: "orders (db unbindable_world) = []"
    by (simp add: unbindable_world_eq sample_db_def)
  from 1 2 3 4 5 6 show ?thesis by blast
qed

subsection \<open>The card reference in the notification email\<close>

lemma masked_same_tail:
  assumes "length c1 = length c2" and "drop (length c1 - 4) c1 = drop (length c2 - 4) c2"
  shows "masked c1 = masked c2"
  using assms by (auto simp: masked_def)

lemma masked_hides_prefix:
  "length (masked cn) = length cn"
  "take (length cn - 4) (masked cn) = replicate (length cn - 4) (CHR ''*'')"
  by (simp_all add: masked_def)

lemma email_shows_last_four_only:
  assumes "length c1 = length c2" and "drop (length c1 - 4) c1 = drop (length c2 - 4) c2"
  shows "send_order_email e d em nm v items t pm c1 ph ad lg
           = send_order_email e d em nm v items t pm c2 ph ad lg"
proof -
  have "payment_info pm c1 = payment_info pm c2"
    using masked_same_tail [OF assms] by (simp add: payment_info_def)
  then show ?thesis
    by (simp add: send_order_email_def cong: sum.case_cong)
qed

subsection \<open>The cart invariant over the life of the server\<close>

lemma ids_update_line: "product_id ` set (update_line c p a) \<subseteq> product_id ` set c"
  by (induction c) auto

lemma distinct_update_line:
  "distinct (map product_id c) \<Longrightarrow> distinct (map product_id (update_line c p a))"
proof (induction c)
  case Nil
  then show ?case by simp
next
  case (Cons l c)
  with ids_update_line [of c p a] show ?case by auto
qed

lemma get_session_carts_distinct:
  "carts_distinct t \<Longrightarrow> carts_distinct (snd (snd (get_session t r)))"
  by (auto simp: carts_distinct_def get_session_def new_session_def get_cart_def
           split: option.splits if_splits)

lemma request_session_distinct:
  assumes "carts_distinct (sessions w)"
  shows "distinct (map product_id (get_cart (request_session w r)))"
  using get_session_carts_distinct [OF assms, of r] get_session_entry [of "sessions w" r]
  by (auto simp: carts_distinct_def request_session_def)

lemma carts_distinct_upd:
  "carts_distinct t \<Longrightarrow> distinct (map product_id (get_cart s)) \<Longrightarrow> carts_distinct (t(sid \<mapsto> s))"
  by (simp add: carts_distinct_def)

lemma do_POST_carts_distinct:
  assumes "carts_distinct (sessions w)"
  shows "carts_distinct (sessions (snd (do_POST e w r)))"
proof (cases "path r = ''/checkout''")
  case False
  with assms show ?thesis by (simp add: do_POST_def)
next
  case True
  with get_session_carts_distinct [OF assms, of r] show ?thesis
    by (simp add: do_POST_def checkout_sessions carts_distinct_upd get_cart_def)
qed

lemma render_keeps_cart: "get_cart (snd (render_checkout d s)) = get_cart s"
  by (simp add: render_checkout_def get_cart_def split: sum.splits)

lemma add_keeps_distinct:
  assumes "distinct (map product_id (get_cart s))"
  shows "distinct (map product_id (get_cart (snd (handle_add_to_cart s p))))"
proof (cases p)
  case (Parsed x)
  with assms show ?thesis by (simp add: get_cart_add distinct_add_line)
qed (use assms in \<open>simp_all add: handle_add_to_cart_def\<close>)

lemma update_keeps_distinct:
  assumes "distinct (map product_id (get_cart s))"
  shows "distinct (map product_id (get_cart (snd (handle_update_cart s p a))))"
proof (cases a)
  case None
  with assms show ?thesis by (simp add: handle_update_cart_def)
next
  case (Some action)
  show ?thesis
  proof (cases p)
    case (Parsed x)
    with Some assms show ?thesis by (simp add: get_cart_update distinct_update_line)
  qed (use assms Some in \<open>simp_all add: handle_update_cart_def\<close>)
qed

lemma do_GET_carts_distinct:
  assumes "carts_distinct (sessions w)"
  shows "carts_distinct (sessions (snd (do_GET e w r)))"
proof -
  obtain sid s0 t where gs: "get_session (sessions w) r = (sid, s0, t)"
    by (cases "get_session (sessions w) r")
  define s where "s = s0\<lparr>lang := (case query_lang r of None \<Rightarrow> lang s0 | Some l \<Rightarrow> l)\<rparr>"
  define s' where "s' =
     snd (if path r = ''/add_to_cart'' then handle_add_to_cart s (query_product_id r)
          else if path r = ''/update_cart''
            then handle_update_cart s (query_product_id r) (query_action r)
          else if path r = ''/checkout'' then render_checkout (db w) s
          else (other_page e (path r) s (db w), s))"
  have 1: "sessions (snd (do_GET e w r)) = t(sid \<mapsto> s')"
    by (simp add: do_GET_def gs Let_def split_def s'_def s_def cong: option.case_cong)
  from get_session_carts_distinct [OF assms, of r] gs have t: "carts_distinct t"
    by simp
  from request_session_distinct [OF assms, of r] gs
  have d: "distinct (map product_id (get_cart s))"
    by (simp add: request_session_def s_def)
  have "distinct (map product_id (get_cart s'))"
    using d
    by (simp add: s'_def render_keeps_cart add_keeps_distinct update_keeps_distinct)
  with t show ?thesis
    unfolding 1 by (rule carts_distinct_upd)
qed

lemma serve_all_carts_distinct:
  "carts_distinct (sessions w) \<Longrightarrow> carts_distinct (sessions (serve_all e w rs))"
proof (induction rs arbitrary: w)
  case Nil
  then show ?case by simp
next
  case (Cons r rs)
  have "carts_distinct (sessions (snd (serve e w r)))"
    using Cons.prems
    by (cases "http_method r")
       (simp_all add: serve_def do_GET_carts_distinct do_POST_carts_distinct)
  then show ?case by (simp add: Cons.IH)
qed

lemma reachable_carts_distinct:
  "sessions w0 = Map.empty \<Longrightarrow>
   distinct (map product_id (get_cart (request_session (serve_all e w0 rs) r)))"
  by (rule request_session_distinct, rule serve_all_carts_distinct)
     (simp add: carts_distinct_def)

subsection \<open>Repeated adds of one product\<close>

lemma distinct_lines_for:
  "distinct (map product_id c) \<Longrightarrow> length (lines_for p c) \<le> 1"
proof (induction c)
  case Nil
  then show ?case by (simp add: lines_for_def)
next
  case (Cons l c)
  show ?case
  proof (cases "product_id l = p")
    case True
    with Cons.prems have "p \<notin> product_id ` set c" by auto
    then have "lines_for p c = []"
      by (auto simp: lines_for_def filter_empty_conv)
    with True show ?thesis by (simp add: lines_for_def)
  next
    case False
    with Cons show ?thesis by (simp add: lines_for_def)
  qed
qed

lemma lines_for_add_n_count:
  assumes "0 < n"
  shows "length (lines_for p (get_cart (add_n n p s)))
           = max 1 (length (lines_for p (get_cart s)))"
proof (cases "lines_for p (get_cart s)")
  case Nil
  with assms show ?thesis by (simp add: lines_for_add_n_absent)
next
  case (Cons l ls)
  then show ?thesis by (simp add: lines_for_add_n_present)
qed

text \<open>
  Claim C7. After \<open>n \<ge> 1\<close> add requests for the same product \<open>p\<close> the number of lines the
  cart holds for \<open>p\<close> is the number it held before, or one if it held none: a line is
  created only when there is none. If \<open>p\<close> was absent its single line has quantity \<open>n\<close>;
  if it was present the quantity of its first line has grown by \<open>n\<close>. The lines of other
  products are untouched. So a cart without duplicate product ids ends with exactly one
  line for \<open>p\<close> and still without duplicates, and this is the case of every cart of every
  session the server holds, whatever requests it has served since its start.
\<close>

theorem add_same_product_single_line:
  assumes "0 < n"
  shows "length (lines_for p (get_cart (add_n n p s)))
           = max 1 (length (lines_for p (get_cart s)))
       \<and> (lines_for p (get_cart s) = [] \<longrightarrow>
            lines_for p (get_cart (add_n n p s)) = [\<lparr>product_id = p, quantity = int n\<rparr>])
       \<and> (\<forall>l ls. lines_for p (get_cart s) = l # ls \<longrightarrow>
            lines_for p (get_cart (add_n n p s)) = l\<lparr>quantity := quantity l + int n\<rparr> # ls)
       \<and> (\<forall>q. q \<noteq> p \<longrightarrow> lines_for q (get_cart (add_n n p s)) = lines_for q (get_cart s))
       \<and> (distinct (map product_id (get_cart s)) \<longrightarrow>
            length (lines_for p (get_cart (add_n n p s))) = 1
            \<and> distinct (map product_id (get_cart (add_n n p s))))
       \<and> (\<forall>e w0 rs r. sessions w0 = Map.empty \<and> s = request_session (serve_all e w0 rs) r \<longrightarrow>
            length (lines_for p (get_cart (add_n n p s))) = 1)"
proof -
  have count: "length (lines_for p (get_cart (add_n n p s)))
                 = max 1 (length (lines_for p (get_cart s)))"
    using assms by (rule lines_for_add_n_count)
  have one: "length (lines_for p (get_cart (add_n n p s))) = 1"
    if "distinct (map product_id (get_cart s))"
    using count distinct_lines_for [OF that, of p] by simp
  have reach: "length (lines_for p (get_cart (add_n n p s))) = 1"
    if "sessions w0 = Map.empty \<and> s = request_session (serve_all e w0 rs) r" for e w0 rs r
    using that one reachable_carts_distinct [of w0 e rs r] by blast
  have absent: "lines_for p (get_cart s) = [] \<longrightarrow>
            lines_for p (get_cart (add_n n p s)) = [\<lparr>product_id = p, quantity = int n\<rparr>]"
    using assms by (simp add: lines_for_add_n_absent)
  from count one reach absent show ?thesis
    by (simp add: lines_for_add_n_present lines_for_add_n_other distinct_add_n)
qed

theorem add_same_product_single_line_witness:
  "(0::nat) < 3
   \<and> lines_for 7 (get_cart (add_n 3 7 \<lparr>cart = None, lang = ''ar'', checkout_total = None,
                                         last_order_total = None\<rparr>))
       = [\<lparr>product_id = 7, quantity = 3\<rparr>]
   \<and> length (lines_for 1 (get_cart (add_n 2 1
         (request_session (serve_all sample_env sample_world
                             [get_request ''/add_to_cart'' None (Parsed 1) None])
                          (post_request (Some ''s1'') cash_form))))) = 1"
proof -
  have e: "lines_for 7 (get_cart \<lparr>cart = None, lang = ''ar'', checkout_total = None,
                                  last_order_total = None\<rparr>) = []"
    by (simp add: lines_for_def get_cart_def)
  have 1: "lines_for 7 (get_cart (add_n 3 7 \<lparr>cart = None, lang = ''ar'', checkout_total = None,
                                             last_order_total = None\<rparr>))
             = [\<lparr>product_id = 7, quantity = 3\<rparr>]"
    using e add_same_product_single_line
            [of 3 7 "\<lparr>cart = None, lang = ''ar'', checkout_total = None,
                      last_order_total = None\<rparr>"]
    by simp
  have m: "sessions sample_world = Map.empty"
    by (simp add: sample_world_def)
  have "0 < (2::nat)" by simp
  from add_same_product_single_line [OF this, of 1
         "request_session (serve_all sample_env sample_world
                             [get_request ''/add_to_cart'' None (Parsed 1) None])
                          (post_request (Some ''s1'') cash_form)"]
  have "\<forall>e w0 rs r. sessions w0 = Map.empty
          \<and> request_session (serve_all sample_env sample_world
                               [get_request ''/add_to_cart'' None (Parsed 1) None])
                             (post_request (Some ''s1'') cash_form)
              = request_session (serve_all e w0 rs) r \<longrightarrow>
          length (lines_for 1 (get_cart (add_n 2 1
            (request_session (serve_all sample_env sample_world
                                [get_request ''/add_to_cart'' None (Parsed 1) None])
                             (post_request (Some ''s1'') cash_form))))) = 1"
    by blast
  with m have 2: "length (lines_for 1 (get_cart (add_n 2 1
            (request_session (serve_all sample_env sample_world
                                [get_request ''/add_to_cart'' None (Parsed 1) None])
                             (post_request (Some ''s1'') cash_form))))) = 1"
    by blast
  from 1 2 show ?thesis by simp
qed

end
